theory Spec2Isabelle
  imports Complex_Main "HOL-Library.Word"
begin

unbundle bit_operations_syntax

section \<open>The BNO080 driver: constants\<close>

text \<open>
  A shallow embedding of \<^verbatim>\<open>adafruit_bno080/__init__.py\<close>. Python integers are
  \<^typ>\<open>int\<close>, the elements of a \<^verbatim>\<open>bytearray\<close> are 8-bit words, exceptions are
  values of the type \<open>error\<close> on the left of a sum. Names keep the source's spelling
  without the leading underscore.

  The scale factors are the Python floats \<^verbatim>\<open>2 ** (k * -1)\<close>. They are negative powers
  of two, and the decoder only multiplies them by 16-bit integers: every such product is
  exactly representable in binary64, so the real number computed here is the float the
  program computes.
\<close>

type_synonym byte = "8 word"

datatype error =
    IndexError
  | KeyError
  | StructError
  | AttributeError
  | ValueError
  | RuntimeError string

definition BNO_CHANNEL_SHTP_COMMAND :: int where [simp]: "BNO_CHANNEL_SHTP_COMMAND = 0"
definition BNO_CHANNEL_EXE :: int where [simp]: "BNO_CHANNEL_EXE = 1"
definition BNO_CHANNEL_CONTROL :: int where [simp]: "BNO_CHANNEL_CONTROL = 2"
definition BNO_CHANNEL_INPUT_SENSOR_REPORTS :: int where
  [simp]: "BNO_CHANNEL_INPUT_SENSOR_REPORTS = 3"

definition BNO_CMD_GET_FEATURE_RESPONSE :: int where [simp]: "BNO_CMD_GET_FEATURE_RESPONSE = 0xFC"
definition BNO_CMD_SET_FEATURE_COMMAND :: int where [simp]: "BNO_CMD_SET_FEATURE_COMMAND = 0xFD"
definition BNO_CMD_BASE_TIMESTAMP :: int where [simp]: "BNO_CMD_BASE_TIMESTAMP = 0xFB"
definition SHTP_REPORT_PRODUCT_ID_RESPONSE :: int where
  [simp]: "SHTP_REPORT_PRODUCT_ID_RESPONSE = 0xF8"
definition SHTP_REPORT_PRODUCT_ID_REQUEST :: int where
  [simp]: "SHTP_REPORT_PRODUCT_ID_REQUEST = 0xF9"
definition BNO_CMD_COMMAND_RESPONSE :: int where [simp]: "BNO_CMD_COMMAND_RESPONSE = 0xF1"

definition BNO_REPORT_ACCELEROMETER :: int where [simp]: "BNO_REPORT_ACCELEROMETER = 0x01"
definition BNO_REPORT_GYROSCOPE :: int where [simp]: "BNO_REPORT_GYROSCOPE = 0x02"
definition BNO_REPORT_MAGNETIC_FIELD :: int where [simp]: "BNO_REPORT_MAGNETIC_FIELD = 0x03"
definition BNO_REPORT_LINEAR_ACCELERATION :: int where
  [simp]: "BNO_REPORT_LINEAR_ACCELERATION = 0x04"
definition BNO_REPORT_ROTATION_VECTOR :: int where [simp]: "BNO_REPORT_ROTATION_VECTOR = 0x05"

definition DEFAULT_REPORT_INTERVAL :: int where [simp]: "DEFAULT_REPORT_INTERVAL = 50000"
definition PACKET_READ_TIMEOUT :: real where [simp]: "PACKET_READ_TIMEOUT = 15"
definition BNO_HEADER_LEN :: nat where [simp]: "BNO_HEADER_LEN = 4"
definition DATA_BUFFER_SIZE :: nat where [simp]: "DATA_BUFFER_SIZE = 512"

definition Q_POINT_14_SCALAR :: real where "Q_POINT_14_SCALAR = 2 powi (14 * - 1)"
definition Q_POINT_9_SCALAR :: real where "Q_POINT_9_SCALAR = 2 powi (9 * - 1)"
definition Q_POINT_8_SCALAR :: real where "Q_POINT_8_SCALAR = 2 powi (8 * - 1)"
definition Q_POINT_4_SCALAR :: real where "Q_POINT_4_SCALAR = 2 powi (4 * - 1)"

definition GYRO_SCALAR :: real where "GYRO_SCALAR = Q_POINT_9_SCALAR"
definition ACCEL_SCALAR :: real where "ACCEL_SCALAR = Q_POINT_8_SCALAR"
definition QUAT_SCALAR :: real where "QUAT_SCALAR = Q_POINT_14_SCALAR"
definition MAG_SCALAR :: real where "MAG_SCALAR = Q_POINT_4_SCALAR"

text \<open>
  The dictionary \<^verbatim>\<open>_ENABLED_SENSOR_REPORTS\<close>, as the source has it: one entry. The
  entries for the gyroscope, the magnetic field, the linear acceleration and the rotation
  vector are commented out in the source, so they are not part of the value.
\<close>

definition ENABLED_SENSOR_REPORTS :: "(int \<times> (real \<times> nat)) list" where
  "ENABLED_SENSOR_REPORTS = [(BNO_REPORT_ACCELEROMETER, (ACCEL_SCALAR, 3))]"

section \<open>Byte buffers: indexing and \<^verbatim>\<open>struct.unpack_from\<close>\<close>

text \<open>
  \<^verbatim>\<open>buf[i]\<close> for a constant index \<open>i \<ge> 0\<close>: the byte as an integer, or IndexError.
\<close>

definition getitem :: "byte list \<Rightarrow> nat \<Rightarrow> error + int" where
  "getitem buf i = (if i < length buf then Inr (uint (buf ! i)) else Inl IndexError)"

text \<open>The four formats the driver uses: \<^verbatim>\<open><B\<close>, \<^verbatim>\<open><H\<close>, \<^verbatim>\<open><h\<close> and \<^verbatim>\<open><I\<close>.\<close>

datatype fmt = LE_B | LE_H | LE_h | LE_I

fun calcsize :: "fmt \<Rightarrow> nat" where
  "calcsize LE_B = 1"
| "calcsize LE_H = 2"
| "calcsize LE_h = 2"
| "calcsize LE_I = 4"

fun le_uint :: "byte list \<Rightarrow> int" where
  "le_uint [] = 0"
| "le_uint (b # bs) = uint b + 256 * le_uint bs"

fun decode :: "fmt \<Rightarrow> byte list \<Rightarrow> int" where
  "decode LE_h bs = (let u = le_uint bs in if u < 32768 then u else u - 65536)"
| "decode f bs = le_uint bs"

text \<open>
  \<^verbatim>\<open>unpack_from(fmt, buf, offset)[0]\<close> for an offset \<open>\<ge> 0\<close>: \<^verbatim>\<open>struct.error\<close> when
  the buffer has fewer than \<open>offset + size\<close> bytes.
\<close>

definition unpack_from :: "fmt \<Rightarrow> byte list \<Rightarrow> nat \<Rightarrow> error + int" where
  "unpack_from f buf offset =
     (if offset + calcsize f \<le> length buf
      then Inr (decode f (take (calcsize f) (drop offset buf)))
      else Inl StructError)"

section \<open>Packets\<close>

record PacketHeader =
  channel_number :: int
  sequence_number :: int
  data_length :: int
  packet_byte_count :: int

record Packet =
  header :: PacketHeader
  data :: "byte list"

text \<open>\<^verbatim>\<open>Packet.header_from_buffer\<close>.\<close>

definition header_from_buffer :: "byte list \<Rightarrow> error + PacketHeader" where
  "header_from_buffer packet_bytes =
     (case unpack_from LE_H packet_bytes 0 of Inl e \<Rightarrow> Inl e | Inr count0 \<Rightarrow>
        let count = count0 AND NOT 0x8000 in
        (case unpack_from LE_B packet_bytes 2 of Inl e \<Rightarrow> Inl e | Inr channel \<Rightarrow>
        (case unpack_from LE_B packet_bytes 3 of Inl e \<Rightarrow> Inl e | Inr seq \<Rightarrow>
           Inr \<lparr>channel_number = channel, sequence_number = seq,
                data_length = max 0 (count - 4), packet_byte_count = count\<rparr>)))"

text \<open>
  \<^verbatim>\<open>Packet.__init__\<close>: the payload is the slice
  \<^verbatim>\<open>packet_bytes[4 : data_length + 4]\<close>, which Python clips to the buffer.
\<close>

definition Packet_init :: "byte list \<Rightarrow> error + Packet" where
  "Packet_init packet_bytes =
     (case header_from_buffer packet_bytes of Inl e \<Rightarrow> Inl e | Inr h \<Rightarrow>
        let data_end_index = nat (data_length h) + BNO_HEADER_LEN in
        Inr \<lparr>header = h,
             data = take (data_end_index - BNO_HEADER_LEN) (drop BNO_HEADER_LEN packet_bytes)\<rparr>)"

text \<open>The properties \<^verbatim>\<open>Packet.report_id\<close> (\<^verbatim>\<open>self.data[0]\<close>) and
  \<^verbatim>\<open>Packet.channel_number\<close>.\<close>

definition Packet_report_id :: "Packet \<Rightarrow> error + int" where
  "Packet_report_id packet = getitem (data packet) 0"

definition Packet_channel_number :: "Packet \<Rightarrow> int" where
  "Packet_channel_number packet = channel_number (header packet)"

text \<open>\<^verbatim>\<open>Packet.is_error\<close>.\<close>

definition is_error :: "PacketHeader \<Rightarrow> bool" where
  "is_error h =
     (if channel_number h > 5 then True
      else if packet_byte_count h = 0xFFFF \<and> sequence_number h = 0xFF then True
      else False)"

section \<open>The report decoder\<close>

text \<open>
  The loop of \<^verbatim>\<open>_parse_report_data\<close> over \<^verbatim>\<open>range(count)\<close>: one signed 16-bit
  little-endian read at offset \<open>9 + 2 * i\<close>, scaled and appended to the results.
\<close>

fun scale_loop :: "byte list \<Rightarrow> real \<Rightarrow> nat list \<Rightarrow> real list \<Rightarrow> error + real list" where
  "scale_loop buf scalar [] results = Inr results"
| "scale_loop buf scalar (offset_idx # rest) results =
     (let base_offset = 9; total_offset = base_offset + offset_idx * 2 in
      case unpack_from LE_h buf total_offset of
        Inl e \<Rightarrow> Inl e
      | Inr raw_data \<Rightarrow>
          let scaled_data = real_of_int raw_data * scalar in
          scale_loop buf scalar rest (results @ [scaled_data]))"

text \<open>
  \<^verbatim>\<open>_parse_report_data\<close>. The \<^verbatim>\<open>debug\<close> argument only prints and is left out. A
  missing key of the dictionary is Python's KeyError.
\<close>

definition parse_report_data :: "Packet \<Rightarrow> error + real list" where
  "parse_report_data packet =
     (case Packet_report_id packet of Inl e \<Rightarrow> Inl e | Inr report_id0 \<Rightarrow>
      (case (if report_id0 = BNO_CMD_BASE_TIMESTAMP then getitem (data packet) 5
             else Inr report_id0) of Inl e \<Rightarrow> Inl e | Inr report_id \<Rightarrow>
      (case map_of ENABLED_SENSOR_REPORTS report_id of
         None \<Rightarrow> Inl KeyError
       | Some (scalar, count) \<Rightarrow> scale_loop (data packet) scalar [0..<count] [])))"

section \<open>The driver's state and its environment\<close>

text \<open>
  The fields of a \<^verbatim>\<open>BNO080\<close> object. The dictionary \<^verbatim>\<open>_readings\<close> is a map from
  report ids to tuples of floats. The last field, \<open>env\<close>, is the state of what lies outside
  the class: the bus behind the transport methods and the clock.

  The \<^verbatim>\<open>_debug\<close> flag only switches printing on; printing is not modelled, so the flag
  and the calls of \<^verbatim>\<open>_dbg\<close> and \<^verbatim>\<open>print\<close> are left out.
\<close>

record 'e BNO080 =
  self_data_buffer :: "byte list"
  self_sequence_number :: "int list"
  self_wait_for_initialize :: bool
  self_init_complete :: bool
  self_id_read :: bool
  self_readings :: "int \<rightharpoonup> real list"
  env :: 'e

text \<open>
  The class declares \<^verbatim>\<open>_data_ready\<close>, \<^verbatim>\<open>_read_packet\<close>, \<^verbatim>\<open>_send_packet\<close> and
  \<^verbatim>\<open>reset\<close> and leaves them to a transport subclass. They are parameters here, with the
  clock (\<^verbatim>\<open>time.monotonic\<close>, \<^verbatim>\<open>time.sleep\<close>): each may read and change the whole
  state, and the transport methods may raise.

  The clock reads seconds as floats, which are real numbers. The difference
  \<^verbatim>\<open>monotonic() - start_time\<close> is a float subtraction: it gives the exact difference
  rounded to a float of the platform (binary64 under CPython, a shorter format on most
  CircuitPython boards). The subtraction is the parameter \<open>float_sub\<close>; comparing two
  floats is exact.
\<close>

record 'e environment =
  monotonic :: "'e BNO080 \<Rightarrow> real \<times> 'e BNO080"
  float_sub :: "real \<Rightarrow> real \<Rightarrow> real"
  sleep :: "real \<Rightarrow> 'e BNO080 \<Rightarrow> 'e BNO080"
  data_ready :: "'e BNO080 \<Rightarrow> error + bool \<times> 'e BNO080"
  read_packet :: "'e BNO080 \<Rightarrow> error + Packet \<times> 'e BNO080"
  send_packet :: "int \<Rightarrow> byte list \<Rightarrow> 'e BNO080 \<Rightarrow> error + 'e BNO080"
  reset :: "'e BNO080 \<Rightarrow> error + 'e BNO080"

text \<open>
  A call that may loop has the result type \<open>(error + 'a) option\<close>: \<open>None\<close> when the
  fuel given to the loops runs out, \<open>Some (Inl e)\<close> for an exception, \<open>Some (Inr x)\<close>
  for a return. \<open>andthen\<close> sequences two such steps.
\<close>

definition andthen ::
  "(error + 'a) option \<Rightarrow> ('a \<Rightarrow> (error + 'b) option) \<Rightarrow> (error + 'b) option" where
  "andthen m f = (case m of None \<Rightarrow> None | Some (Inl e) \<Rightarrow> Some (Inl e) | Some (Inr x) \<Rightarrow> f x)"

text \<open>
  Python's truth value of an argument that is \<^verbatim>\<open>None\<close> or an integer: \<^verbatim>\<open>None\<close>
  and \<open>0\<close> are false.
\<close>

definition truthy :: "int option \<Rightarrow> bool" where
  "truthy v = (case v of None \<Rightarrow> False | Some i \<Rightarrow> i \<noteq> 0)"

section \<open>Waiting for packets\<close>

text \<open>\<^verbatim>\<open>_elapsed\<close>: the clock is read and \<^verbatim>\<open>start_time\<close> subtracted from it.\<close>

definition elapsed :: "'e environment \<Rightarrow> real \<Rightarrow> 'e BNO080 \<Rightarrow> real \<times> 'e BNO080" where
  "elapsed E start_time st =
     (case monotonic E st of (now, st1) \<Rightarrow> (float_sub E now start_time, st1))"

text \<open>
  \<^verbatim>\<open>_wait_for_packet\<close>: \<^verbatim>\<open>start_time\<close> is the clock at the start of the poll; the
  loop compares \<^verbatim>\<open>_elapsed(start_time)\<close> with the timeout and polls \<^verbatim>\<open>_data_ready\<close>.
\<close>

fun wait_for_packet_loop ::
  "'e environment \<Rightarrow> nat \<Rightarrow> real \<Rightarrow> real \<Rightarrow> 'e BNO080 \<Rightarrow> (error + Packet \<times> 'e BNO080) option"
where
  "wait_for_packet_loop E 0 start_time timeout st = None"
| "wait_for_packet_loop E (Suc fuel) start_time timeout st =
     (case elapsed E start_time st of (passed, st1) \<Rightarrow>
        if passed < timeout then
          (case data_ready E st1 of
             Inl e \<Rightarrow> Some (Inl e)
           | Inr (ready, st2) \<Rightarrow>
               if \<not> ready then wait_for_packet_loop E fuel start_time timeout st2
               else (case read_packet E st2 of
                       Inl e \<Rightarrow> Some (Inl e)
                     | Inr (new_packet, st3) \<Rightarrow> Some (Inr (new_packet, st3))))
        else Some (Inl (RuntimeError ''Timed out waiting for a packet'')))"

definition wait_for_packet ::
  "'e environment \<Rightarrow> nat \<Rightarrow> real \<Rightarrow> 'e BNO080 \<Rightarrow> (error + Packet \<times> 'e BNO080) option" where
  "wait_for_packet E fuel timeout st =
     (case monotonic E st of (start_time, st0) \<Rightarrow>
        wait_for_packet_loop E fuel start_time timeout st0)"

section \<open>The dispatch routine\<close>

text \<open>
  \<^verbatim>\<open>_update_sequence_number\<close>: a list assignment \<^verbatim>\<open>self._sequence_number[channel] = seq\<close>,
  with Python's negative indices and its IndexError.
\<close>

definition update_sequence_number :: "Packet \<Rightarrow> 'e BNO080 \<Rightarrow> error + 'e BNO080" where
  "update_sequence_number new_packet st =
     (let channel = Packet_channel_number new_packet;
          seq = sequence_number (header new_packet);
          n = int (length (self_sequence_number st));
          j = (if channel < 0 then n + channel else channel)
      in if 0 \<le> j \<and> j < n
         then Inr (st\<lparr>self_sequence_number := (self_sequence_number st)[nat j := seq]\<rparr>)
         else Inl IndexError)"

text \<open>
  \<^verbatim>\<open>_store_sensor_report\<close>: the right-hand side is evaluated first; the target is
  \<^verbatim>\<open>self._reading\<close>, an attribute the class never creates (its dictionary is
  \<^verbatim>\<open>self._readings\<close>), so the assignment raises AttributeError.
\<close>

definition store_sensor_report :: "Packet \<Rightarrow> 'e BNO080 \<Rightarrow> error + 'e BNO080" where
  "store_sensor_report packet st =
     (case parse_report_data packet of Inl e \<Rightarrow> Inl e | Inr reading \<Rightarrow> Inl AttributeError)"

text \<open>
  The values met by the membership test \<^verbatim>\<open>packet.report_id in [_ENABLED_SENSOR_REPORTS]\<close>:
  an integer on the left, a list whose one element is the dictionary on the right. Python
  compares the integer with each element of the list, here with the dictionary itself.
\<close>

datatype pyobj = PyInt int | PyDict "(int \<times> (real \<times> nat)) list"

text \<open>
  \<^verbatim>\<open>_handle_packet\<close>: four \<^verbatim>\<open>if\<close> statements in a row, one per channel. The call of
  \<^verbatim>\<open>self.initialize()\<close> in the third re-enters the read loop; it is the parameter
  \<open>reinit\<close>.
\<close>

definition handle_packet ::
  "'e environment \<Rightarrow> ('e BNO080 \<Rightarrow> (error + 'e BNO080) option) \<Rightarrow> Packet \<Rightarrow> 'e BNO080
     \<Rightarrow> (error + 'e BNO080) option" where
  "handle_packet E reinit packet st =
     andthen
       (if Packet_channel_number packet = BNO_CHANNEL_INPUT_SENSOR_REPORTS then
          (case Packet_report_id packet of
             Inl e \<Rightarrow> Some (Inl e)
           | Inr report_id \<Rightarrow>
               if PyInt report_id \<in> set [PyDict ENABLED_SENSOR_REPORTS]
               then Some (store_sensor_report packet st)
               else Some (Inr st))
        else Some (Inr st))
     (\<lambda>st1. andthen
       (if Packet_channel_number packet = BNO_CHANNEL_SHTP_COMMAND then
          if data_length (header packet) = 272 then
            Some (Inr (st1\<lparr>self_wait_for_initialize := True,
                           self_init_complete := False,
                           self_id_read := False\<rparr>))
          else Some (Inr st1)
        else Some (Inr st1))
     (\<lambda>st2. andthen
       (if Packet_channel_number packet = BNO_CHANNEL_EXE then
          (case getitem (data packet) 0 of
             Inl e \<Rightarrow> Some (Inl e)
           | Inr b \<Rightarrow>
               if b = 1 then reinit (sleep E 1 (st2\<lparr>self_init_complete := False\<rparr>))
               else Some (Inr st2))
        else Some (Inr st2))
     (\<lambda>st3.
        if Packet_channel_number packet = BNO_CHANNEL_CONTROL then
          (case Packet_report_id packet of
             Inl e \<Rightarrow> Some (Inl e)
           | Inr report_id \<Rightarrow>
               if report_id = BNO_CMD_COMMAND_RESPONSE then
                 (case getitem (data packet) 2 of
                    Inl e \<Rightarrow> Some (Inl e)
                  | Inr b \<Rightarrow>
                      if b = 0x84 then
                        if self_wait_for_initialize st3 then
                          Some (Inr (st3\<lparr>self_wait_for_initialize := False,
                                         self_init_complete := True\<rparr>))
                        else Some (Inl (RuntimeError
                                          ''Unsolicted init received before Advertisement''))
                      else Some (Inr st3))
               else Some (Inr st3))
        else Some (Inr st3))))"

section \<open>Waiting for a packet of a given kind\<close>

text \<open>
  \<^verbatim>\<open>_wait_for_packet_type\<close>. The inner call of \<^verbatim>\<open>_wait_for_packet\<close> has its default
  timeout. The second argument of the RuntimeError, the channel number, is dropped.
\<close>

fun wait_for_packet_type_loop ::
  "'e environment \<Rightarrow> ('e BNO080 \<Rightarrow> (error + 'e BNO080) option) \<Rightarrow> nat \<Rightarrow> int \<Rightarrow> int option
     \<Rightarrow> real \<Rightarrow> real \<Rightarrow> 'e BNO080 \<Rightarrow> (error + Packet \<times> 'e BNO080) option"
where
  "wait_for_packet_type_loop E reinit 0 channel report_id timeout start_time st = None"
| "wait_for_packet_type_loop E reinit (Suc fuel) channel report_id timeout start_time st =
     (case elapsed E start_time st of (passed, st1) \<Rightarrow>
        if passed < timeout then
          (case wait_for_packet E fuel PACKET_READ_TIMEOUT st1 of
             None \<Rightarrow> None
           | Some (Inl e) \<Rightarrow> Some (Inl e)
           | Some (Inr (new_packet, st2)) \<Rightarrow>
               let continue =
                 (case handle_packet E reinit new_packet st2 of
                    None \<Rightarrow> None
                  | Some (Inl e) \<Rightarrow> Some (Inl e)
                  | Some (Inr st3) \<Rightarrow>
                      wait_for_packet_type_loop E reinit fuel channel report_id timeout
                        start_time st3)
               in
               if Packet_channel_number new_packet = channel then
                 if truthy report_id then
                   (case Packet_report_id new_packet of
                      Inl e \<Rightarrow> Some (Inl e)
                    | Inr packet_report_id \<Rightarrow>
                        if Some packet_report_id = report_id then Some (Inr (new_packet, st2))
                        else continue)
                 else Some (Inr (new_packet, st2))
               else continue)
        else Some (Inl (RuntimeError ''Timed out waiting for a packet on channel'')))"

definition wait_for_packet_type ::
  "'e environment \<Rightarrow> ('e BNO080 \<Rightarrow> (error + 'e BNO080) option) \<Rightarrow> nat \<Rightarrow> int \<Rightarrow> int option
     \<Rightarrow> real \<Rightarrow> 'e BNO080 \<Rightarrow> (error + Packet \<times> 'e BNO080) option" where
  "wait_for_packet_type E reinit fuel channel report_id timeout st =
     (case monotonic E st of (start_time, st0) \<Rightarrow>
        wait_for_packet_type_loop E reinit fuel channel report_id timeout start_time st0)"

section \<open>The sensor id query\<close>

text \<open>\<^verbatim>\<open>_get_data\<close>: the index does not count the four bytes of the header.\<close>

definition get_data :: "nat \<Rightarrow> fmt \<Rightarrow> 'e BNO080 \<Rightarrow> error + int" where
  "get_data index fmt_string st =
     (let data_index = index + 4 in unpack_from fmt_string (self_data_buffer st) data_index)"

text \<open>\<^verbatim>\<open>_parse_sensor_id\<close>: \<^verbatim>\<open>None\<close>, or the part number.\<close>

definition parse_sensor_id :: "'e BNO080 \<Rightarrow> error + int option" where
  "parse_sensor_id st =
     (case getitem (self_data_buffer st) 4 of Inl e \<Rightarrow> Inl e | Inr b \<Rightarrow>
        if \<not> b = SHTP_REPORT_PRODUCT_ID_RESPONSE then Inr None
        else
          (case get_data 2 LE_B st of Inl e \<Rightarrow> Inl e | Inr sw_major \<Rightarrow>
          (case get_data 3 LE_B st of Inl e \<Rightarrow> Inl e | Inr sw_minor \<Rightarrow>
          (case get_data 12 LE_H st of Inl e \<Rightarrow> Inl e | Inr sw_patch \<Rightarrow>
          (case get_data 4 LE_I st of Inl e \<Rightarrow> Inl e | Inr sw_part_number \<Rightarrow>
          (case get_data 8 LE_I st of Inl e \<Rightarrow> Inl e | Inr sw_build_number \<Rightarrow>
             Inr (Some sw_part_number)))))))"

text \<open>
  \<^verbatim>\<open>_check_id\<close>: the \<^verbatim>\<open>while True\<close> loop waits for a product id response with the
  default timeout of \<^verbatim>\<open>_wait_for_packet_type\<close>, five seconds.
\<close>

fun check_id_loop ::
  "'e environment \<Rightarrow> ('e BNO080 \<Rightarrow> (error + 'e BNO080) option) \<Rightarrow> nat \<Rightarrow> 'e BNO080
     \<Rightarrow> (error + bool \<times> 'e BNO080) option"
where
  "check_id_loop E reinit 0 st = None"
| "check_id_loop E reinit (Suc fuel) st =
     (case wait_for_packet_type E reinit fuel BNO_CHANNEL_CONTROL
             (Some SHTP_REPORT_PRODUCT_ID_RESPONSE) 5 st of
        None \<Rightarrow> None
      | Some (Inl e) \<Rightarrow> Some (Inl e)
      | Some (Inr (packet, st1)) \<Rightarrow>
          (case parse_sensor_id st1 of
             Inl e \<Rightarrow> Some (Inl e)
           | Inr sensor_id \<Rightarrow>
               if truthy sensor_id then Some (Inr (True, st1\<lparr>self_id_read := True\<rparr>))
               else check_id_loop E reinit fuel st1))"

definition check_id ::
  "'e environment \<Rightarrow> ('e BNO080 \<Rightarrow> (error + 'e BNO080) option) \<Rightarrow> nat \<Rightarrow> 'e BNO080
     \<Rightarrow> (error + bool \<times> 'e BNO080) option" where
  "check_id E reinit fuel st =
     (if self_id_read st then Some (Inr (True, st))
      else
        let data = [word_of_int SHTP_REPORT_PRODUCT_ID_REQUEST, 0] in
        (case send_packet E BNO_CHANNEL_CONTROL data st of
           Inl e \<Rightarrow> Some (Inl e)
         | Inr st1 \<Rightarrow> check_id_loop E reinit fuel st1))"

section \<open>The feature handshake and the initialization\<close>

text \<open>
  \<^verbatim>\<open>pack_into(fmt, buf, offset, value)\<close> for an offset \<open>\<ge> 0\<close>: the bytes of the value,
  low byte first, overwrite the buffer from the offset on. A value outside the range of
  the format, or a buffer that is too short, is \<^verbatim>\<open>struct.error\<close>. The driver packs
  unsigned values only.
\<close>

fun le_bytes :: "nat \<Rightarrow> int \<Rightarrow> byte list" where
  "le_bytes 0 v = []"
| "le_bytes (Suc n) v = word_of_int (v mod 256) # le_bytes n (v div 256)"

definition pack_into :: "fmt \<Rightarrow> byte list \<Rightarrow> nat \<Rightarrow> int \<Rightarrow> error + byte list" where
  "pack_into f buf offset v =
     (if offset + calcsize f \<le> length buf \<and> 0 \<le> v \<and> v < 256 ^ calcsize f
      then Inr (take offset buf @ le_bytes (calcsize f) v @ drop (offset + calcsize f) buf)
      else Inl StructError)"

text \<open>
  \<^verbatim>\<open>_get_feature_enable_report\<close>: seventeen zero bytes, the command in byte 0, the feature
  id in byte 1 (a \<^verbatim>\<open>bytearray\<close> takes integers from 0 to 255 only), the report interval
  in bytes 5 to 8.
\<close>

definition get_feature_enable_report :: "int \<Rightarrow> error + byte list" where
  "get_feature_enable_report feature_id =
     (let set_feature_report = replicate 17 (0 :: byte);
          set_feature_report =
            set_feature_report[0 := word_of_int BNO_CMD_SET_FEATURE_COMMAND]
      in if 0 \<le> feature_id \<and> feature_id < 256
         then pack_into LE_I (set_feature_report[1 := word_of_int feature_id]) 5
                DEFAULT_REPORT_INTERVAL
         else Inl ValueError)"

text \<open>
  \<^verbatim>\<open>_enable_feature\<close>: the \<^verbatim>\<open>while True\<close> loop waits for a feature response that
  echoes the feature id in \<^verbatim>\<open>packet.data[1]\<close>.
\<close>

fun enable_feature_loop ::
  "'e environment \<Rightarrow> ('e BNO080 \<Rightarrow> (error + 'e BNO080) option) \<Rightarrow> nat \<Rightarrow> int \<Rightarrow> 'e BNO080
     \<Rightarrow> (error + bool \<times> 'e BNO080) option"
where
  "enable_feature_loop E reinit 0 feature_id st = None"
| "enable_feature_loop E reinit (Suc fuel) feature_id st =
     (case wait_for_packet_type E reinit fuel BNO_CHANNEL_CONTROL
             (Some BNO_CMD_GET_FEATURE_RESPONSE) 5 st of
        None \<Rightarrow> None
      | Some (Inl e) \<Rightarrow> Some (Inl e)
      | Some (Inr (packet, st1)) \<Rightarrow>
          (case getitem (data packet) 1 of
             Inl e \<Rightarrow> Some (Inl e)
           | Inr echoed \<Rightarrow>
               if echoed = feature_id then
                 if feature_id = BNO_REPORT_ROTATION_VECTOR
                 then Some (Inr (True, st1\<lparr>self_readings :=
                                              (self_readings st1)(feature_id \<mapsto> [0, 0, 0, 0])\<rparr>))
                 else Some (Inr (True, st1\<lparr>self_readings :=
                                              (self_readings st1)(feature_id \<mapsto> [0, 0, 0])\<rparr>))
               else enable_feature_loop E reinit fuel feature_id st1))"

definition enable_feature ::
  "'e environment \<Rightarrow> ('e BNO080 \<Rightarrow> (error + 'e BNO080) option) \<Rightarrow> nat \<Rightarrow> int \<Rightarrow> 'e BNO080
     \<Rightarrow> (error + bool \<times> 'e BNO080) option" where
  "enable_feature E reinit fuel feature_id st =
     (case get_feature_enable_report feature_id of
        Inl e \<Rightarrow> Some (Inl e)
      | Inr set_feature_report \<Rightarrow>
          (case send_packet E BNO_CHANNEL_CONTROL set_feature_report st of
             Inl e \<Rightarrow> Some (Inl e)
           | Inr st1 \<Rightarrow> enable_feature_loop E reinit fuel feature_id st1))"

text \<open>
  \<^verbatim>\<open>initialize\<close>: the reset, the id query and the five features in the source's order.
  The calls it makes reach \<^verbatim>\<open>_handle_packet\<close>, which may call \<^verbatim>\<open>initialize\<close> again:
  the fuel bounds this nesting as well.
\<close>

primrec initialize :: "'e environment \<Rightarrow> nat \<Rightarrow> 'e BNO080 \<Rightarrow> (error + 'e BNO080) option" where
  "initialize E 0 = (\<lambda>st. None)"
| "initialize E (Suc fuel) = (\<lambda>st.
     case reset E st of
       Inl e \<Rightarrow> Some (Inl e)
     | Inr st0 \<Rightarrow>
         andthen (check_id E (initialize E fuel) fuel st0) (\<lambda>(id_ok, st1).
           if \<not> id_ok then Some (Inl (RuntimeError ''Could not read ID''))
           else
             andthen (enable_feature E (initialize E fuel) fuel BNO_REPORT_GYROSCOPE st1)
               (\<lambda>(r2, st2).
             andthen (enable_feature E (initialize E fuel) fuel BNO_REPORT_ACCELEROMETER st2)
               (\<lambda>(r3, st3).
             andthen (enable_feature E (initialize E fuel) fuel BNO_REPORT_LINEAR_ACCELERATION st3)
               (\<lambda>(r4, st4).
             andthen (enable_feature E (initialize E fuel) fuel BNO_REPORT_ROTATION_VECTOR st4)
               (\<lambda>(r5, st5).
             andthen (enable_feature E (initialize E fuel) fuel BNO_REPORT_MAGNETIC_FIELD st5)
               (\<lambda>(r6, st6). Some (Inr st6))))))))"

section \<open>Receiving packets\<close>

text \<open>
  Modelled from the spec: the bookkeeping of the transport's \<^verbatim>\<open>_read_packet\<close>. The
  source declares \<^verbatim>\<open>_read_packet\<close> without a body and defines
  \<^verbatim>\<open>_update_sequence_number\<close> without calling it. The spec has the sequence tracker
  ``updated on every received packet'': the receive step records the packet with the
  source's \<^verbatim>\<open>_update_sequence_number\<close>.
\<close>

definition receive_packet :: "Packet \<Rightarrow> 'e BNO080 \<Rightarrow> error + 'e BNO080" where
  "receive_packet new_packet st = update_sequence_number new_packet st"

text \<open>
  The packets of a list received and dispatched one after the other, as the loop of
  \<^verbatim>\<open>_process_available_packets\<close> does with the packets it reads.
\<close>

fun process_packets ::
  "'e environment \<Rightarrow> ('e BNO080 \<Rightarrow> (error + 'e BNO080) option) \<Rightarrow> Packet list \<Rightarrow> 'e BNO080
     \<Rightarrow> (error + 'e BNO080) option"
where
  "process_packets E reinit [] st = Some (Inr st)"
| "process_packets E reinit (new_packet # rest) st =
     (case receive_packet new_packet st of
        Inl e \<Rightarrow> Some (Inl e)
      | Inr st1 \<Rightarrow>
          (case handle_packet E reinit new_packet st1 of
             None \<Rightarrow> None
           | Some (Inl e) \<Rightarrow> Some (Inl e)
           | Some (Inr st2) \<Rightarrow> process_packets E reinit rest st2))"

section \<open>A scripted environment\<close>

text \<open>
  One environment, to run the driver on concrete inputs. It follows the spec's
  description of the transport: a ready signal, a read, a write and a hard reset, and
  ``exactly one raw-byte receive buffer \<dots> overwritten on every read''. The script lists
  what the clock will read, what the ready signal will answer and the contents of the
  receive buffer after each read; a read assembles the packet from the buffer with
  \<^verbatim>\<open>Packet(self._data_buffer)\<close>. Writes and resets are logged. A clock with nothing left
  to read reads 0, a ready signal with nothing left answers false.
\<close>

text \<open>
  The float subtraction of this environment is the one of binary64: the exact difference
  rounded to the nearest float, ties to the even one. A float of magnitude from
  \<open>2\<^sup>e\<close> up to \<open>2\<^sup>e\<^sup>+\<^sup>1\<close> is a multiple of \<open>2\<^sup>e\<^sup>-\<^sup>5\<^sup>2\<close>, and of \<open>2\<^sup>-\<^sup>1\<^sup>0\<^sup>7\<^sup>4\<close> below
  \<open>2\<^sup>-\<^sup>1\<^sup>0\<^sup>2\<^sup>2\<close>. The overflow to infinity, above \<open>2\<^sup>1\<^sup>0\<^sup>2\<^sup>4\<close>, is left out: clocks do
  not reach it.
\<close>

definition round_half_even :: "real \<Rightarrow> int" where
  "round_half_even y =
     (let f = \<lfloor>y\<rfloor>; d = y - of_int f
      in if d < 1 / 2 then f else if 1 / 2 < d then f + 1 else if even f then f else f + 1)"

definition round_b64 :: "real \<Rightarrow> real" where
  "round_b64 x =
     (if x = 0 then 0
      else let e = max \<lfloor>log 2 \<bar>x\<bar>\<rfloor> (- 1022); ulp = 2 powi (e - 52)
           in of_int (round_half_even (x / ulp)) * ulp)"

record script =
  clock :: "real list"
  ready :: "bool list"
  frames :: "byte list list"
  sent :: "(int \<times> byte list) list"
  resets :: nat

definition script_env :: "script environment" where
  "script_env =
     \<lparr>monotonic = (\<lambda>st. case clock (env st) of
                           [] \<Rightarrow> (0, st)
                         | t # ts \<Rightarrow> (t, st\<lparr>env := (env st)\<lparr>clock := ts\<rparr>\<rparr>)),
      float_sub = (\<lambda>a b. round_b64 (a - b)),
      sleep = (\<lambda>secs st. st),
      data_ready = (\<lambda>st. case ready (env st) of
                            [] \<Rightarrow> Inr (False, st)
                          | r # rs \<Rightarrow> Inr (r, st\<lparr>env := (env st)\<lparr>ready := rs\<rparr>\<rparr>)),
      read_packet = (\<lambda>st. case frames (env st) of
                             [] \<Rightarrow> Inl (RuntimeError ''Not implemented'')
                           | f # fs \<Rightarrow>
                               (case Packet_init f of
                                  Inl e \<Rightarrow> Inl e
                                | Inr new_packet \<Rightarrow>
                                    Inr (new_packet,
                                         st\<lparr>self_data_buffer := f,
                                            env := (env st)\<lparr>frames := fs\<rparr>\<rparr>))),
      send_packet = (\<lambda>channel bytes st.
                       Inr (st\<lparr>env := (env st)\<lparr>sent := sent (env st) @ [(channel, bytes)]\<rparr>\<rparr>)),
      reset = (\<lambda>st. Inr (st\<lparr>env := (env st)\<lparr>resets := Suc (resets (env st))\<rparr>\<rparr>))\<rparr>"

text \<open>
  The fields as \<^verbatim>\<open>BNO080.__init__\<close> sets them, before it calls \<^verbatim>\<open>initialize\<close>.
\<close>

definition BNO080_init :: "'e \<Rightarrow> 'e BNO080" where
  "BNO080_init e =
     \<lparr>self_data_buffer = replicate DATA_BUFFER_SIZE 0,
      self_sequence_number = [0, 0, 0, 0, 0, 0],
      self_wait_for_initialize = True,
      self_init_complete = False,
      self_id_read = False,
      self_readings = Map.empty,
      env = e\<rparr>"

section \<open>Example inputs\<close>

subsection \<open>Sensor reports\<close>

text \<open>
  Two accelerometer reports with the raw values 4000, -4000 and 0 (the bytes
  \<open>A0 0F\<close>, \<open>60 F0\<close> and \<open>00 00\<close>) at the payload offsets 9, 11 and 13: one plain, one
  behind a base-timestamp report id. A gyroscope report of the same shape.
\<close>

definition accelerometer_report :: Packet where
  "accelerometer_report =
     \<lparr>header = \<lparr>channel_number = 3, sequence_number = 7, data_length = 15,
                 packet_byte_count = 19\<rparr>,
      data = [0x01, 0, 0, 0, 0, 0, 0, 0, 0, 0xA0, 0x0F, 0x60, 0xF0, 0, 0]\<rparr>"

definition timestamped_report :: Packet where
  "timestamped_report =
     \<lparr>header = \<lparr>channel_number = 3, sequence_number = 8, data_length = 15,
                 packet_byte_count = 19\<rparr>,
      data = [0xFB, 0x17, 0, 0, 0, 0x01, 0, 0, 0, 0xA0, 0x0F, 0x60, 0xF0, 0, 0]\<rparr>"

definition gyroscope_report :: Packet where
  "gyroscope_report =
     \<lparr>header = \<lparr>channel_number = 3, sequence_number = 9, data_length = 15,
                 packet_byte_count = 19\<rparr>,
      data = [0x02, 0, 0, 0, 0, 0, 0, 0, 0, 0xA0, 0x0F, 0x60, 0xF0, 0, 0]\<rparr>"

subsection \<open>Packets of the other channels\<close>

text \<open>
  The command response of the source's comment (\<open>F1 00 84 \<dots>\<close> on the control channel),
  an advertisement (272 bytes of payload announced on channel 0), the frame of the
  accelerometer report above, a feature response, and
  two product id responses: the one of the source's comment, with the part number
  \<open>0x0098A498 = 10003608\<close>, and one with the part number 0. The frames are the contents
  of the receive buffer, header first.
\<close>

definition unsolicited_init :: Packet where
  "unsolicited_init =
     \<lparr>header = \<lparr>channel_number = 2, sequence_number = 1, data_length = 16,
                 packet_byte_count = 20\<rparr>,
      data = [0xF1, 0, 0x84, 0, 0, 0, 1, 0, 0, 0, 0, 0, 0, 0, 0, 0]\<rparr>"

definition advertisement :: Packet where
  "advertisement =
     \<lparr>header = \<lparr>channel_number = 0, sequence_number = 1, data_length = 272,
                 packet_byte_count = 276\<rparr>,
      data = [0, 1, 4, 0]\<rparr>"

definition accelerometer_frame :: "byte list" where
  "accelerometer_frame =
     [0x13, 0x00, 0x03, 0x07, 0x01, 0, 0, 0, 0, 0, 0, 0, 0, 0xA0, 0x0F, 0x60, 0xF0, 0, 0]"

definition feature_frame :: "byte list" where
  "feature_frame =
     [0x14, 0x00, 0x02, 0x01, 0xFC, 0x01, 0, 0, 0, 0x50, 0xC3, 0, 0, 0, 0, 0, 0, 0, 0, 0]"

definition feature_response :: Packet where
  "feature_response =
     \<lparr>header = \<lparr>channel_number = 2, sequence_number = 1, data_length = 16,
                 packet_byte_count = 20\<rparr>,
      data = [0xFC, 0x01, 0, 0, 0, 0x50, 0xC3, 0, 0, 0, 0, 0, 0, 0, 0, 0]\<rparr>"

definition id_frame :: "byte list" where
  "id_frame =
     [0x14, 0x80, 0x02, 0x03, 0xF8, 0x03, 0x03, 0x02, 0x98, 0xA4, 0x98, 0x00,
      0x72, 0x01, 0x00, 0x00, 0x07, 0x00, 0x00, 0x00]"

definition id_response :: Packet where
  "id_response =
     \<lparr>header = \<lparr>channel_number = 2, sequence_number = 3, data_length = 16,
                 packet_byte_count = 20\<rparr>,
      data = [0xF8, 0x03, 0x03, 0x02, 0x98, 0xA4, 0x98, 0x00,
              0x72, 0x01, 0x00, 0x00, 0x07, 0x00, 0x00, 0x00]\<rparr>"

definition zero_id_frame :: "byte list" where
  "zero_id_frame =
     [0x14, 0x80, 0x02, 0x02, 0xF8, 0x03, 0x03, 0x02, 0x00, 0x00, 0x00, 0x00,
      0x72, 0x01, 0x00, 0x00, 0x07, 0x00, 0x00, 0x00]"

definition zero_id_response :: Packet where
  "zero_id_response =
     \<lparr>header = \<lparr>channel_number = 2, sequence_number = 2, data_length = 16,
                 packet_byte_count = 20\<rparr>,
      data = [0xF8, 0x03, 0x03, 0x02, 0x00, 0x00, 0x00, 0x00,
              0x72, 0x01, 0x00, 0x00, 0x07, 0x00, 0x00, 0x00]\<rparr>"

subsection \<open>Scripts and states\<close>

text \<open>
  \<open>idle\<close>: nothing happens. \<open>running\<close>: a driver after its initialization, with the
  accelerometer's reading seeded by the feature handshake. In the other scripts the clock
  reads 100 seconds when the call starts.
  \<open>late_arrival\<close>: the clock reads 100 at the start of the call, at the first test of the
  deadline and at the start of the poll; the poll finds no data at 107 and a feature
  response at 114.
  \<open>silence\<close>: no data at 103, 106, 109 and 112, and the clock reads 115 at the next test.
  \<open>expired\<close>: the clock reads 106 at the first test of the deadline.
  \<open>prompt_arrival\<close>: a feature response is ready in the first poll.
  \<open>two_frames\<close>: a feature response, then a product id response.
  \<open>other_channel_first\<close>: an accelerometer report on channel 3, then a feature response
  on channel 2.
  \<open>id_query\<close>: a product id response with the part number 0, then one with the part
  number 10003608.
\<close>

definition idle :: script where
  "idle = \<lparr>clock = [], ready = [], frames = [], sent = [], resets = 0\<rparr>"

definition running :: "script BNO080" where
  "running =
     \<lparr>self_data_buffer = replicate DATA_BUFFER_SIZE 0,
      self_sequence_number = [4, 0, 9, 7, 0, 0],
      self_wait_for_initialize = False,
      self_init_complete = True,
      self_id_read = True,
      self_readings = [BNO_REPORT_ACCELEROMETER \<mapsto> [0, 0, 0]],
      env = idle\<rparr>"

definition late_arrival :: script where
  "late_arrival =
     \<lparr>clock = [100, 100, 100, 107, 114], ready = [False, True], frames = [feature_frame],
      sent = [], resets = 0\<rparr>"

definition silence :: script where
  "silence =
     \<lparr>clock = [100, 100, 100, 103, 106, 109, 112, 115],
      ready = [False, False, False, False],
      frames = [], sent = [], resets = 0\<rparr>"

definition expired :: script where
  "expired = \<lparr>clock = [100, 106], ready = [], frames = [], sent = [], resets = 0\<rparr>"

definition prompt_arrival :: script where
  "prompt_arrival =
     \<lparr>clock = [100, 101, 101, 102], ready = [True], frames = [feature_frame], sent = [],
      resets = 0\<rparr>"

definition two_frames :: script where
  "two_frames =
     \<lparr>clock = [100, 101, 101, 102, 103, 103, 104], ready = [True, True],
      frames = [feature_frame, id_frame], sent = [], resets = 0\<rparr>"

definition other_channel_first :: script where
  "other_channel_first =
     \<lparr>clock = [100, 101, 101, 102, 103, 103, 104], ready = [True, True],
      frames = [accelerometer_frame, feature_frame], sent = [], resets = 0\<rparr>"

definition id_query :: script where
  "id_query =
     \<lparr>clock = [0, 0, 0, 0, 1, 1, 1, 1], ready = [True, True],
      frames = [zero_id_frame, id_frame], sent = [], resets = 0\<rparr>"

section \<open>Properties of the frame codec and the decoder\<close>

subsection \<open>The error test of the frame codec\<close>

text \<open>
  C6: for every header, \<^verbatim>\<open>Packet.is_error\<close> is true exactly when the channel number is
  greater than 5, or the packet byte count is 0xFFFF and the sequence number is 0xFF. It
  is false for every other header, channel 5 included.
\<close>

theorem is_error_iff:
  "is_error h \<longleftrightarrow>
     channel_number h > 5 \<or> (packet_byte_count h = 0xFFFF \<and> sequence_number h = 0xFF)"
  by (simp add: is_error_def)

theorem is_error_iff_witness:
  "\<not> is_error \<lparr>channel_number = 5, sequence_number = 0xFF, data_length = 16,
                  packet_byte_count = 20\<rparr>
   \<and> is_error \<lparr>channel_number = 6, sequence_number = 0, data_length = 16,
                 packet_byte_count = 20\<rparr>
   \<and> is_error \<lparr>channel_number = 0, sequence_number = 0xFF, data_length = 0xFFFB,
                 packet_byte_count = 0xFFFF\<rparr>
   \<and> \<not> is_error \<lparr>channel_number = 0, sequence_number = 0xFE, data_length = 0xFFFB,
                   packet_byte_count = 0xFFFF\<rparr>"
  by (simp add: is_error_iff)

subsection \<open>Reading a signed 16-bit value\<close>

lemma uint_cat16:
  "uint (word_cat (hi::byte) (lo::byte) :: 16 word) = uint lo + 256 * uint hi"
proof -
  have lo: "0 \<le> uint lo" "uint lo < 256" using uint_lt2p [of lo] by simp_all
  have hi: "0 \<le> uint hi" "uint hi < 256" using uint_lt2p [of hi] by simp_all
  have "uint (word_cat hi lo :: 16 word) = take_bit 16 (concat_bit 8 (uint lo) (uint hi))"
    by (simp add: word_cat_eq' uint_word_of_int_eq)
  also have "concat_bit 8 (uint lo) (uint hi) = uint lo + 256 * uint hi"
    using lo by (simp add: concat_bit_eq take_bit_eq_mod push_bit_eq_mult)
  also have "take_bit 16 (uint lo + 256 * uint hi) = uint lo + 256 * uint hi"
    using lo hi by (simp add: take_bit_eq_mod)
  finally show ?thesis .
qed

text \<open>
  The two's complement reading written out in \<open>decode\<close> is the library's \<open>sint\<close> of
  the 16-bit word with the low byte first.
\<close>

lemma sint_cat16:
  "sint (word_cat (hi::byte) (lo::byte) :: 16 word) =
     (let u = uint lo + 256 * uint hi in if u < 32768 then u else u - 65536)"
proof -
  have lo: "0 \<le> uint lo" "uint lo < 256" using uint_lt2p [of lo] by simp_all
  have hi: "0 \<le> uint hi" "uint hi < 256" using uint_lt2p [of hi] by simp_all
  define u where "u = uint lo + 256 * uint hi"
  have u: "0 \<le> u" "u < 65536" using lo hi by (simp_all add: u_def)
  have "sint (word_cat hi lo :: 16 word) = take_bit 16 (u + 32768) - 32768"
    by (simp add: sint_uint uint_cat16 signed_take_bit_eq_take_bit_shift u_def)
  also have "\<dots> = (if u < 32768 then u else u - 65536)"
  proof (cases "u < 32768")
    case True
    then have "(u + 32768) mod 65536 = u + 32768" using u by simp
    then show ?thesis using True by (simp add: take_bit_eq_mod)
  next
    case False
    then have "(u + 32768) mod 65536 = u + 32768 - 65536" using u
      by (simp add: mod_pos_geq)
    then show ?thesis using False by (simp add: take_bit_eq_mod)
  qed
  finally show ?thesis by (simp add: u_def Let_def)
qed

lemma take2_drop:
  assumes "off + 2 \<le> length buf"
  shows "take 2 (drop off buf) = [buf ! off, buf ! (off + 1)]"
proof -
  have "drop off buf = buf ! off # drop (Suc off) buf"
    using assms by (simp add: Cons_nth_drop_Suc)
  moreover have "drop (Suc off) buf = buf ! (Suc off) # drop (Suc (Suc off)) buf"
    using assms by (simp add: Cons_nth_drop_Suc)
  ultimately show ?thesis by (simp add: numeral_2_eq_2)
qed

lemma unpack_from_h:
  "off + 2 \<le> length buf \<Longrightarrow>
     unpack_from LE_h buf off = Inr (sint (word_cat (buf ! (off + 1)) (buf ! off) :: 16 word))"
  by (simp add: unpack_from_def take2_drop sint_cat16)

lemma sample_values:
  "(signed (word_cat (0x0F :: byte) (0xA0 :: byte) :: 16 word) :: real) = 4000"
  "(signed (word_cat (0xF0 :: byte) (0x60 :: byte) :: 16 word) :: real) = - 4000"
proof -
  have f: "sint (word_cat (0x0F :: byte) (0xA0 :: byte) :: 16 word) = 4000"
          "sint (word_cat (0xF0 :: byte) (0x60 :: byte) :: 16 word) = - 4000"
    by (simp_all add: sint_cat16)
  have "(signed (word_cat (0x0F :: byte) (0xA0 :: byte) :: 16 word) :: real) =
          real_of_int (sint (word_cat (0x0F :: byte) (0xA0 :: byte) :: 16 word))"
    by (rule of_int_sint [symmetric])
  also have "\<dots> = 4000" by (simp only: f of_int_numeral of_int_minus)
  finally show "(signed (word_cat (0x0F :: byte) (0xA0 :: byte) :: 16 word) :: real) = 4000" .
  have "(signed (word_cat (0xF0 :: byte) (0x60 :: byte) :: 16 word) :: real) =
          real_of_int (sint (word_cat (0xF0 :: byte) (0x60 :: byte) :: 16 word))"
    by (rule of_int_sint [symmetric])
  also have "\<dots> = - 4000" by (simp only: f of_int_numeral of_int_minus)
  finally show "(signed (word_cat (0xF0 :: byte) (0x60 :: byte) :: 16 word) :: real) = - 4000" .
qed

subsection \<open>The decoder\<close>

lemma scale_loop_ok:
  "(\<forall>i\<in>set idxs. 9 + i * 2 + 2 \<le> length buf) \<Longrightarrow>
     scale_loop buf scalar idxs results =
       Inr (results @
            map (\<lambda>i. real_of_int (sint (word_cat (buf ! (9 + i * 2 + 1)) (buf ! (9 + i * 2))
                                           :: 16 word)) * scalar) idxs)"
  by (induction idxs arbitrary: results) (simp_all add: unpack_from_h Let_def)

lemma scale_loop_not_KeyError: "scale_loop buf scalar idxs results \<noteq> Inl KeyError"
  by (induction idxs arbitrary: results)
     (simp_all add: unpack_from_def Let_def)

lemma ENABLED_SENSOR_REPORTS_lookup:
  "map_of ENABLED_SENSOR_REPORTS report_id =
     (if report_id = BNO_REPORT_ACCELEROMETER then Some (ACCEL_SCALAR, 3) else None)"
  by (simp add: ENABLED_SENSOR_REPORTS_def)

text \<open>
  C5: for a packet whose payload is long enough (\<open>9 + 2 * count\<close> bytes), the decoder
  resolves the report id (read from \<open>payload[5]\<close> when the packet's report id is the
  base-timestamp marker 0xFB), looks the resolved id up, and returns \<open>count\<close> values in
  order, the \<open>i\<close>-th being the signed little-endian 16-bit integer at the payload offset
  \<open>9 + 2 * i\<close> times the scale. A raw value of 4000 at the scale \<open>2\<^sup>-\<^sup>8\<close> is exactly
  15.625, and -4000 is exactly -15.625. The lookup is in the dictionary as the source has
  it; what the decoder does with an id that is not a key is the lemma after the theorem.
\<close>

theorem parse_report_data_decodes:
  assumes "Packet_report_id packet = Inr rid"
    and "resolved = (if rid = BNO_CMD_BASE_TIMESTAMP then uint (data packet ! 5) else rid)"
    and "map_of ENABLED_SENSOR_REPORTS resolved = Some (scale, count)"
    and "9 + 2 * count \<le> length (data packet)"
  shows "parse_report_data packet =
           Inr (map (\<lambda>i. real_of_int (sint (word_cat (data packet ! (9 + 2 * i + 1))
                                                      (data packet ! (9 + 2 * i)) :: 16 word))
                          * scale)
                    [0..<count])
         \<and> real_of_int 4000 * Q_POINT_8_SCALAR = 15.625
         \<and> real_of_int (- 4000) * Q_POINT_8_SCALAR = - 15.625"
proof -
  have five: "getitem (data packet) 5 = Inr (uint (data packet ! 5))"
    using assms(4) by (simp add: getitem_def)
  have idx: "\<forall>i\<in>set [0..<count]. 9 + i * 2 + 2 \<le> length (data packet)"
    using assms(4) by auto
  have look: "map_of ENABLED_SENSOR_REPORTS
                (if rid = BNO_CMD_BASE_TIMESTAMP then uint (data packet ! 5) else rid) =
              Some (scale, count)"
    using assms(2,3) by simp
  have "parse_report_data packet = scale_loop (data packet) scale [0..<count] []"
  proof (cases "rid = BNO_CMD_BASE_TIMESTAMP")
    case True
    then show ?thesis using assms(1) five look by (simp add: parse_report_data_def)
  next
    case False
    then show ?thesis using assms(1) look by (simp add: parse_report_data_def)
  qed
  then show ?thesis
    using scale_loop_ok [OF idx, of scale "[]"]
    by (simp add: mult.commute Q_POINT_8_SCALAR_def)
qed

theorem parse_report_data_decodes_witness:
  "parse_report_data accelerometer_report = Inr [15.625, - 15.625, 0]
   \<and> parse_report_data timestamped_report = Inr [15.625, - 15.625, 0]"
proof -
  have c: "map_of ENABLED_SENSOR_REPORTS 1 = Some (ACCEL_SCALAR, 3)"
    by (simp add: ENABLED_SENSOR_REPORTS_def)
  have e: "[0..<3] = [0, 1, 2]" by (simp add: upt_rec)
  have a1: "Packet_report_id accelerometer_report = Inr 1"
    by (simp add: accelerometer_report_def Packet_report_id_def getitem_def)
  have b1: "(1::int) = (if (1::int) = BNO_CMD_BASE_TIMESTAMP
                        then uint (data accelerometer_report ! 5) else 1)"
    by simp
  have d1: "9 + 2 * 3 \<le> length (data accelerometer_report)"
    by (simp add: accelerometer_report_def)
  have a2: "Packet_report_id timestamped_report = Inr 0xFB"
    by (simp add: timestamped_report_def Packet_report_id_def getitem_def)
  have b2: "(1::int) = (if (0xFB::int) = BNO_CMD_BASE_TIMESTAMP
                        then uint (data timestamped_report ! 5) else 0xFB)"
    by (simp add: timestamped_report_def)
  have d2: "9 + 2 * 3 \<le> length (data timestamped_report)"
    by (simp add: timestamped_report_def)
  have "parse_report_data accelerometer_report = Inr [15.625, - 15.625, 0]"
    using parse_report_data_decodes [OF a1 b1 c d1]
    by (simp add: e sample_values accelerometer_report_def ACCEL_SCALAR_def
          Q_POINT_8_SCALAR_def)
  moreover have "parse_report_data timestamped_report = Inr [15.625, - 15.625, 0]"
    using parse_report_data_decodes [OF a2 b2 c d2]
    by (simp add: e sample_values timestamped_report_def ACCEL_SCALAR_def
          Q_POINT_8_SCALAR_def)
  ultimately show ?thesis by simp
qed

text \<open>
  The decoder raises KeyError exactly when the resolved report id is not a key of the
  dictionary, that is, when it is not the accelerometer's.
\<close>

lemma parse_report_data_KeyError_iff:
  assumes "Packet_report_id packet = Inr rid"
    and "rid = BNO_CMD_BASE_TIMESTAMP \<longrightarrow> 5 < length (data packet)"
  shows "parse_report_data packet = Inl KeyError \<longleftrightarrow>
           (if rid = BNO_CMD_BASE_TIMESTAMP then uint (data packet ! 5) else rid)
             \<noteq> BNO_REPORT_ACCELEROMETER"
  using assms scale_loop_not_KeyError [of "data packet" ACCEL_SCALAR "[0..<3]" "[]"]
  by (simp add: parse_report_data_def getitem_def ENABLED_SENSOR_REPORTS_lookup)

text \<open>
  C2: the decode table maps each of the five supported report ids to its scale and
  component count. The table of the source holds the accelerometer alone; here the
  decoder is run on a gyroscope report, which the claim has decoded with
  \<open>(2\<^sup>-\<^sup>9, 3)\<close>: the lookup fails and the decoder raises KeyError.
\<close>

theorem gyroscope_report_not_decoded:
  "map_of ENABLED_SENSOR_REPORTS BNO_REPORT_GYROSCOPE = None
   \<and> parse_report_data gyroscope_report = Inl KeyError"
  by (simp add: parse_report_data_def gyroscope_report_def Packet_report_id_def getitem_def
        ENABLED_SENSOR_REPORTS_def)

section \<open>Properties of the dispatch routine\<close>

lemma BNO080_init_simps [simp]:
  "self_data_buffer (BNO080_init e) = replicate DATA_BUFFER_SIZE 0"
  "self_sequence_number (BNO080_init e) = [0, 0, 0, 0, 0, 0]"
  "self_wait_for_initialize (BNO080_init e) = True"
  "self_init_complete (BNO080_init e) = False"
  "self_id_read (BNO080_init e) = False"
  "self_readings (BNO080_init e) = Map.empty"
  "env (BNO080_init e) = e"
  by (simp_all add: BNO080_init_def)

text \<open>Binary64 holds the integers below \<open>2\<^sup>5\<^sup>3\<close>: rounding leaves them as they are.\<close>

lemma round_half_even_of_int: "round_half_even (of_int m) = m"
  by (simp add: round_half_even_def)

lemma powi_nonpos:
  assumes "e \<le> 52"
  shows "(2::real) powi (e - 52) = 1 / 2 ^ nat (52 - e)"
proof -
  have "(2::real) powi (e - 52) = inverse (2 powi (52 - e))"
    by (simp flip: power_int_minus)
  also have "\<dots> = 1 / 2 ^ nat (52 - e)"
    using assms by (simp add: power_int_def inverse_eq_divide)
  finally show ?thesis .
qed

lemma round_b64_of_int:
  assumes "\<bar>n\<bar> < 2 ^ 53"
  shows "round_b64 (of_int n) = of_int n"
proof (cases "n = 0")
  case True
  then show ?thesis by (simp add: round_b64_def)
next
  case False
  define x :: real where "x = of_int n"
  have xn: "x \<noteq> 0" using False by (simp add: x_def)
  have "1 \<le> \<bar>n\<bar>" using False by simp
  then have x1: "1 \<le> \<bar>x\<bar>" unfolding x_def by (metis of_int_1_le_iff of_int_abs)
  have x2: "\<bar>x\<bar> < 2 ^ 53" using assms unfolding x_def
    by (metis of_int_abs of_int_less_numeral_power_cancel_iff)
  define e where "e = \<lfloor>log 2 \<bar>x\<bar>\<rfloor>"
  have "0 \<le> log 2 \<bar>x\<bar>" using x1 by simp
  then have e0: "0 \<le> e" by (simp add: e_def)
  have "log 2 \<bar>x\<bar> < log 2 (2 ^ 53)"
    using x1 x2 by (subst log_less_cancel_iff) simp_all
  also have "log 2 ((2::real) ^ 53) = 53"
    by (subst log_pow_cancel) simp_all
  finally have "log 2 \<bar>x\<bar> < 53" .
  then have "e < 53" unfolding e_def by (simp add: floor_less_iff)
  then have e52: "e \<le> 52" by simp
  define k where "k = nat (52 - e)"
  have ulp: "(2::real) powi (e - 52) = 1 / 2 ^ k"
    using powi_nonpos [OF e52] by (simp add: k_def)
  have "x / (1 / 2 ^ k) = of_int (n * 2 ^ k)" by (simp add: x_def)
  then have r: "round_half_even (x / (1 / 2 ^ k)) = n * 2 ^ k"
    by (simp only: round_half_even_of_int)
  have m: "max e (- 1022) = e" using e0 by simp
  have "round_b64 x = of_int (round_half_even (x / (1 / 2 ^ k))) * (1 / 2 ^ k)"
    using xn by (simp only: round_b64_def Let_def e_def [symmetric] m ulp if_False)
  also have "\<dots> = x" by (simp only: r) (simp add: x_def)
  finally show ?thesis by (simp add: x_def)
qed

lemma round_b64_numeral [simp]:
  "round_b64 0 = 0" "round_b64 1 = 1"
  "(numeral w :: int) < 2 ^ 53 \<Longrightarrow> round_b64 (numeral w) = numeral w"
  using round_b64_of_int [of 0] round_b64_of_int [of 1] round_b64_of_int [of "numeral w"]
  by simp_all

lemma floor_log2:
  assumes "2 powi e \<le> \<bar>x::real\<bar>" "\<bar>x\<bar> < 2 powi (e + 1)"
  shows "\<lfloor>log 2 \<bar>x\<bar>\<rfloor> = e"
proof -
  have "(0::real) < 2 powi e" by simp
  then have "0 < \<bar>x\<bar>" using assms(1) by linarith
  moreover have "(2::real) powr real_of_int e = 2 powi e"
    by (rule powr_real_of_int') simp_all
  moreover have "(2::real) powr real_of_int (e + 1) = 2 powi (e + 1)"
    by (rule powr_real_of_int') simp_all
  ultimately show ?thesis
    using assms by (subst floor_log_eq_powr_iff) simp_all
qed

lemma script_env_simps [simp]:
  "monotonic script_env st =
     (case clock (env st) of [] \<Rightarrow> (0, st)
      | t # ts \<Rightarrow> (t, st\<lparr>env := (env st)\<lparr>clock := ts\<rparr>\<rparr>))"
  "float_sub script_env a b = round_b64 (a - b)"
  "sleep script_env secs st = st"
  "data_ready script_env st =
     (case ready (env st) of [] \<Rightarrow> Inr (False, st)
      | r # rs \<Rightarrow> Inr (r, st\<lparr>env := (env st)\<lparr>ready := rs\<rparr>\<rparr>))"
  "read_packet script_env st =
     (case frames (env st) of [] \<Rightarrow> Inl (RuntimeError ''Not implemented'')
      | f # fs \<Rightarrow>
          (case Packet_init f of Inl e \<Rightarrow> Inl e
           | Inr new_packet \<Rightarrow>
               Inr (new_packet, st\<lparr>self_data_buffer := f, env := (env st)\<lparr>frames := fs\<rparr>\<rparr>)))"
  "send_packet script_env channel bytes st =
     Inr (st\<lparr>env := (env st)\<lparr>sent := sent (env st) @ [(channel, bytes)]\<rparr>\<rparr>)"
  "reset script_env st = Inr (st\<lparr>env := (env st)\<lparr>resets := Suc (resets (env st))\<rparr>\<rparr>)"
  by (simp_all add: script_env_def)

text \<open>
  The subtraction of the scripted environment rounds. The binary64 floats nearest to 5.1
  and to 0.1 are \<open>5742089524897382 / 2\<^sup>5\<^sup>0\<close> and \<open>3602879701896397 / 2\<^sup>5\<^sup>5\<close>; their exact
  difference is below 5, their float difference is 5.
\<close>

lemma float_sub_rounds:
  "float_sub script_env (5742089524897382 / 2 ^ 50) (3602879701896397 / 2 ^ 55) = 5
   \<and> (5742089524897382 / 2 ^ 50 - 3602879701896397 / 2 ^ 55 :: real) < 5"
proof -
  define x :: real where "x = 5742089524897382 / 2 ^ 50 - 3602879701896397 / 2 ^ 55"
  have x: "x = 180143985094819827 / 2 ^ 55" by (simp add: x_def)
  have b: "2 powi 2 \<le> \<bar>x\<bar>" "\<bar>x\<bar> < 2 powi (2 + 1)" by (simp_all add: x)
  have e: "\<lfloor>log 2 \<bar>x\<bar>\<rfloor> = 2" by (rule floor_log2 [OF b])
  have q: "x / 2 powi (2 - 52) = 180143985094819827 / 32" by (simp add: x)
  have f: "\<lfloor>180143985094819827 / 32 :: real\<rfloor> = 5629499534213119" by simp
  have r: "round_half_even (180143985094819827 / 32) = 5629499534213120"
    by (simp add: round_half_even_def f Let_def)
  have "x \<noteq> 0" by (simp add: x)
  then have "round_b64 x = of_int (round_half_even (x / 2 powi (2 - 52))) * 2 powi (2 - 52)"
    by (simp add: round_b64_def e Let_def)
  also have "\<dots> = 5" by (simp only: q r) simp
  finally have "round_b64 x = 5" .
  moreover have "x < 5" by (simp add: x)
  ultimately show ?thesis by (simp add: x_def)
qed

lemma truthy_simps [simp]: "truthy None = False" "truthy (Some i) = (i \<noteq> 0)"
  by (simp_all add: truthy_def)

subsection \<open>Sensor reports\<close>

text \<open>
  On the sensor report channel the membership test compares the report id, an integer,
  with the dictionary: it is false for every packet, and the dispatch routine returns the
  state as it found it (or raises IndexError on an empty payload).
\<close>

lemma handle_packet_sensor_channel:
  "Packet_channel_number packet = BNO_CHANNEL_INPUT_SENSOR_REPORTS \<Longrightarrow>
     handle_packet E reinit packet st =
       (case Packet_report_id packet of
          Inl e \<Rightarrow> Some (Inl e)
        | Inr report_id \<Rightarrow> Some (Inr st))"
  by (simp add: handle_packet_def andthen_def split: sum.splits)

text \<open>Were it called, \<^verbatim>\<open>_store_sensor_report\<close> would raise and store nothing.\<close>

lemma store_sensor_report_raises: "store_sensor_report packet st \<noteq> Inr st'"
  by (simp add: store_sensor_report_def split: sum.splits)

text \<open>
  C1: a packet on the sensor report channel whose report id is an enabled report is
  decoded and its tuple stored in \<^verbatim>\<open>_readings\<close>. Here the dispatch routine is run on
  the accelerometer report, whose values decode to 15.625, -15.625 and 0, in a state where
  the accelerometer's reading is the zero tuple of the handshake: the state comes back
  unchanged, the reading still the zero tuple.
\<close>

theorem sensor_report_not_cached:
  "handle_packet script_env (\<lambda>st. None) accelerometer_report running = Some (Inr running)
   \<and> self_readings running BNO_REPORT_ACCELEROMETER = Some [0, 0, 0]"
  by (simp add: handle_packet_sensor_channel accelerometer_report_def Packet_channel_number_def
       Packet_report_id_def getitem_def running_def)

subsection \<open>The unsolicited initialize response\<close>

text \<open>
  C4: on a control channel packet whose report id is 0xF1 and whose payload byte 2 is
  0x84, the dispatch routine clears \<^verbatim>\<open>_wait_for_initialize\<close> and sets
  \<^verbatim>\<open>_init_complete\<close> when the flag is set, and raises the RuntimeError of the
  unsolicited init when it is not.
\<close>

theorem handle_packet_unsolicited_init:
  assumes "Packet_channel_number packet = BNO_CHANNEL_CONTROL"
    and "Packet_report_id packet = Inr BNO_CMD_COMMAND_RESPONSE"
    and "getitem (data packet) 2 = Inr 0x84"
  shows "handle_packet E reinit packet st =
           (if self_wait_for_initialize st
            then Some (Inr (st\<lparr>self_wait_for_initialize := False, self_init_complete := True\<rparr>))
            else Some (Inl (RuntimeError ''Unsolicted init received before Advertisement'')))"
  using assms by (simp add: handle_packet_def andthen_def)

theorem handle_packet_unsolicited_init_witness:
  "handle_packet script_env (\<lambda>st. None) unsolicited_init (BNO080_init idle) =
     Some (Inr ((BNO080_init idle)\<lparr>self_wait_for_initialize := False,
                                  self_init_complete := True\<rparr>))
   \<and> handle_packet script_env (\<lambda>st. None) unsolicited_init
        ((BNO080_init idle)\<lparr>self_wait_for_initialize := False, self_init_complete := True\<rparr>) =
     Some (Inl (RuntimeError ''Unsolicted init received before Advertisement''))"
proof -
  have a: "Packet_channel_number unsolicited_init = BNO_CHANNEL_CONTROL"
    by (simp add: unsolicited_init_def Packet_channel_number_def)
  have b: "Packet_report_id unsolicited_init = Inr BNO_CMD_COMMAND_RESPONSE"
    by (simp add: unsolicited_init_def Packet_report_id_def getitem_def)
  have c: "getitem (data unsolicited_init) 2 = Inr 0x84"
    by (simp add: unsolicited_init_def getitem_def)
  show ?thesis
    using handle_packet_unsolicited_init
            [OF a b c, of script_env "\<lambda>st. None" "BNO080_init idle"]
      handle_packet_unsolicited_init
            [OF a b c, of script_env "\<lambda>st. None"
               "(BNO080_init idle)\<lparr>self_wait_for_initialize := False,
                                   self_init_complete := True\<rparr>"]
    by simp
qed

subsection \<open>The advertisement\<close>

text \<open>
  C8: on a packet of channel 0 whose \<^verbatim>\<open>data_length\<close> is 272, the dispatch routine sets
  \<^verbatim>\<open>_wait_for_initialize\<close> to true, \<^verbatim>\<open>_init_complete\<close> and \<^verbatim>\<open>_id_read\<close> to false,
  whatever the state was, and changes nothing else: the readings and the sequence tracker
  are those of the state it was given.
\<close>

theorem handle_packet_advertisement:
  assumes "Packet_channel_number packet = BNO_CHANNEL_SHTP_COMMAND"
    and "data_length (header packet) = 272"
  shows "\<exists>st'. handle_packet E reinit packet st = Some (Inr st')
           \<and> st' = st\<lparr>self_wait_for_initialize := True, self_init_complete := False,
                       self_id_read := False\<rparr>
           \<and> self_readings st' = self_readings st
           \<and> self_sequence_number st' = self_sequence_number st"
  using assms by (simp add: handle_packet_def andthen_def)

theorem handle_packet_advertisement_witness:
  "handle_packet script_env (\<lambda>st. None) advertisement running =
     Some (Inr (running\<lparr>self_wait_for_initialize := True, self_init_complete := False,
                       self_id_read := False\<rparr>))"
proof -
  have a: "Packet_channel_number advertisement = BNO_CHANNEL_SHTP_COMMAND"
    by (simp add: advertisement_def Packet_channel_number_def)
  have b: "data_length (header advertisement) = 272"
    by (simp add: advertisement_def)
  show ?thesis
    using handle_packet_advertisement [OF a b, of script_env "\<lambda>st. None" running]
    by simp
qed

section \<open>Properties of the read loop\<close>

text \<open>The loops unfold once on a numeral of fuel.\<close>

lemmas fuel_numeral =
  wait_for_packet_loop.simps(2) [where fuel = "pred_numeral k", folded numeral_eq_Suc]
  wait_for_packet_loop.simps(2) [where fuel = 0, folded One_nat_def]
  wait_for_packet_type_loop.simps(2) [where fuel = "pred_numeral k", folded numeral_eq_Suc]
  wait_for_packet_type_loop.simps(2) [where fuel = 0, folded One_nat_def]
  check_id_loop.simps(2) [where fuel = "pred_numeral k", folded numeral_eq_Suc]
  check_id_loop.simps(2) [where fuel = 0, folded One_nat_def]
  for k

lemma Packet_init_accelerometer_frame: "Packet_init accelerometer_frame = Inr accelerometer_report"
  by (simp add: Packet_init_def header_from_buffer_def unpack_from_def accelerometer_frame_def
        accelerometer_report_def)

lemma Packet_init_feature_frame: "Packet_init feature_frame = Inr feature_response"
  by (simp add: Packet_init_def header_from_buffer_def unpack_from_def feature_frame_def
        feature_response_def)

lemma Packet_init_id_frame: "Packet_init id_frame = Inr id_response"
  by (simp add: Packet_init_def header_from_buffer_def unpack_from_def id_frame_def
        id_response_def)

lemma Packet_init_zero_id_frame: "Packet_init zero_id_frame = Inr zero_id_response"
  by (simp add: Packet_init_def header_from_buffer_def unpack_from_def zero_id_frame_def
        zero_id_response_def)

lemma packet_facts [simp]:
  "Packet_channel_number zero_id_response = 2"
  "Packet_report_id zero_id_response = Inr 0xF8"
  "Packet_channel_number id_response = 2"
  "Packet_report_id id_response = Inr 0xF8"
  "Packet_channel_number feature_response = 2"
  "Packet_report_id feature_response = Inr 0xFC"
  "Packet_channel_number accelerometer_report = 3"
  "Packet_report_id accelerometer_report = Inr 0x01"
  by (simp_all add: Packet_channel_number_def Packet_report_id_def getitem_def
        zero_id_response_def id_response_def feature_response_def accelerometer_report_def)

subsection \<open>The start of a wait and one turn of its loop\<close>

text \<open>
  A call reads the clock once, before its loop: that reading is the \<^verbatim>\<open>start_time\<close> of
  every test of the deadline the call makes.
\<close>

lemma wait_for_packet_type_start:
  "monotonic E s = (start_time, s0) \<Longrightarrow>
     wait_for_packet_type E reinit n channel report_id timeout s =
       wait_for_packet_type_loop E reinit n channel report_id timeout start_time s0"
  by (simp add: wait_for_packet_type_def)

lemma wait_for_packet_start:
  "monotonic E s = (poll_start, s0) \<Longrightarrow>
     wait_for_packet E n poll_timeout s = wait_for_packet_loop E n poll_start poll_timeout s0"
  by (simp add: wait_for_packet_def)

lemma loop_deadline:
  "monotonic E st = (now, st1) \<Longrightarrow> \<not> float_sub E now start_time < timeout \<Longrightarrow>
     wait_for_packet_type_loop E reinit (Suc fuel) channel report_id timeout start_time st =
       Some (Inl (RuntimeError ''Timed out waiting for a packet on channel''))"
  by (simp add: elapsed_def)

lemma loop_poll_error:
  "monotonic E st = (now, st1) \<Longrightarrow> float_sub E now start_time < timeout \<Longrightarrow>
   wait_for_packet E fuel PACKET_READ_TIMEOUT st1 = Some (Inl e) \<Longrightarrow>
     wait_for_packet_type_loop E reinit (Suc fuel) channel report_id timeout start_time st =
       Some (Inl e)"
  by (simp add: elapsed_def)

lemma loop_match:
  "monotonic E st = (now, st1) \<Longrightarrow> float_sub E now start_time < timeout \<Longrightarrow>
   wait_for_packet E fuel PACKET_READ_TIMEOUT st1 = Some (Inr (new_packet, st2)) \<Longrightarrow>
   Packet_channel_number new_packet = channel \<Longrightarrow>
   truthy report_id \<longrightarrow> (\<exists>r. report_id = Some r \<and> Packet_report_id new_packet = Inr r) \<Longrightarrow>
     wait_for_packet_type_loop E reinit (Suc fuel) channel report_id timeout start_time st =
       Some (Inr (new_packet, st2))"
  by (auto simp: elapsed_def Let_def)

lemma loop_other:
  "monotonic E st = (now, st1) \<Longrightarrow> float_sub E now start_time < timeout \<Longrightarrow>
   wait_for_packet E fuel PACKET_READ_TIMEOUT st1 = Some (Inr (new_packet, st2)) \<Longrightarrow>
   Packet_channel_number new_packet \<noteq> channel
     \<or> (truthy report_id \<and> (\<exists>r. Packet_report_id new_packet = Inr r \<and> report_id \<noteq> Some r)) \<Longrightarrow>
     wait_for_packet_type_loop E reinit (Suc fuel) channel report_id timeout start_time st =
       andthen (handle_packet E reinit new_packet st2)
         (\<lambda>st3. wait_for_packet_type_loop E reinit fuel channel report_id timeout start_time st3)"
  by (auto simp: elapsed_def andthen_def Let_def split: option.splits sum.splits)

lemma poll_deadline:
  "monotonic E st = (now, st1) \<Longrightarrow> \<not> float_sub E now poll_start < poll_timeout \<Longrightarrow>
     wait_for_packet_loop E (Suc fuel) poll_start poll_timeout st =
       Some (Inl (RuntimeError ''Timed out waiting for a packet''))"
  by (simp add: elapsed_def)

lemma poll_not_ready:
  "monotonic E st = (now, st1) \<Longrightarrow> float_sub E now poll_start < poll_timeout \<Longrightarrow>
   data_ready E st1 = Inr (False, st2) \<Longrightarrow>
     wait_for_packet_loop E (Suc fuel) poll_start poll_timeout st =
       wait_for_packet_loop E fuel poll_start poll_timeout st2"
  by (simp add: elapsed_def)

lemma poll_ready:
  "monotonic E st = (now, st1) \<Longrightarrow> float_sub E now poll_start < poll_timeout \<Longrightarrow>
   data_ready E st1 = Inr (True, st2) \<Longrightarrow> read_packet E st2 = Inr (new_packet, st3) \<Longrightarrow>
     wait_for_packet_loop E (Suc fuel) poll_start poll_timeout st = Some (Inr (new_packet, st3))"
  by (simp add: elapsed_def)

text \<open>Whatever a wait returns is on the requested channel, with the report id asked for.\<close>

lemma loop_returns_match:
  "wait_for_packet_type_loop E reinit fuel channel report_id timeout start_time st =
     Some (Inr (packet, st')) \<Longrightarrow>
   Packet_channel_number packet = channel \<and>
   (truthy report_id \<longrightarrow> (\<exists>r. report_id = Some r \<and> Packet_report_id packet = Inr r))"
proof (induction fuel arbitrary: st)
  case 0
  then show ?case by simp
next
  case (Suc fuel)
  then show ?case
    by (auto simp: Let_def split: prod.splits option.splits sum.splits if_splits)
qed

lemma wait_for_packet_type_returns_match:
  "wait_for_packet_type E reinit fuel channel report_id timeout st = Some (Inr (packet, st')) \<Longrightarrow>
   Packet_channel_number packet = channel \<and>
   (truthy report_id \<longrightarrow> (\<exists>r. report_id = Some r \<and> Packet_report_id packet = Inr r))"
  by (auto simp: wait_for_packet_type_def split: prod.splits dest: loop_returns_match)

lemma loop_zero_report_id:
  "wait_for_packet_type_loop E reinit fuel channel (Some 0) timeout start_time st =
   wait_for_packet_type_loop E reinit fuel channel None timeout start_time st"
proof (induction fuel arbitrary: st)
  case 0
  show ?case by simp
next
  case (Suc fuel)
  show ?case
    by (simp add: Suc.IH Let_def split: prod.splits option.splits sum.splits)
qed

subsection \<open>A report id of zero\<close>

text \<open>
  C9: with a report id of 0 the filter on the report id is not applied. The call is the
  call without a report id. Its deadline counts from the clock at the start of the call.
  In each turn of its loop, a packet received on the requested channel is returned
  whatever its report id; a packet of another channel is handed to \<^verbatim>\<open>_handle_packet\<close>
  and the loop goes on; a test that finds the timeout used up raises the RuntimeError.
  So the packet the call returns is on the requested channel, and it is the first one
  received there.
\<close>

theorem wait_for_packet_type_zero_report_id:
  "wait_for_packet_type E reinit n channel (Some 0) timeout s =
     wait_for_packet_type E reinit n channel None timeout s
   \<and> (monotonic E s = (start_time, s0)
      \<longrightarrow> wait_for_packet_type E reinit n channel (Some 0) timeout s =
            wait_for_packet_type_loop E reinit n channel (Some 0) timeout start_time s0)
   \<and> (monotonic E st = (now, st1) \<and> float_sub E now start_time < timeout
        \<and> wait_for_packet E fuel PACKET_READ_TIMEOUT st1 = Some (Inr (new_packet, st2))
        \<and> Packet_channel_number new_packet = channel
      \<longrightarrow> wait_for_packet_type_loop E reinit (Suc fuel) channel (Some 0) timeout start_time st =
            Some (Inr (new_packet, st2)))
   \<and> (monotonic E st = (now, st1) \<and> float_sub E now start_time < timeout
        \<and> wait_for_packet E fuel PACKET_READ_TIMEOUT st1 = Some (Inr (new_packet, st2))
        \<and> Packet_channel_number new_packet \<noteq> channel
      \<longrightarrow> wait_for_packet_type_loop E reinit (Suc fuel) channel (Some 0) timeout start_time st =
            andthen (handle_packet E reinit new_packet st2)
              (\<lambda>st3. wait_for_packet_type_loop E reinit fuel channel (Some 0) timeout
                        start_time st3))
   \<and> (monotonic E st = (now, st1) \<and> \<not> float_sub E now start_time < timeout
      \<longrightarrow> wait_for_packet_type_loop E reinit (Suc fuel) channel (Some 0) timeout start_time st =
            Some (Inl (RuntimeError ''Timed out waiting for a packet on channel'')))
   \<and> (wait_for_packet_type E reinit n channel (Some 0) timeout s = Some (Inr (packet, s'))
      \<longrightarrow> Packet_channel_number packet = channel)"
  apply (intro conjI)
  subgoal
    by (simp add: wait_for_packet_type_def loop_zero_report_id split: prod.splits)
  subgoal
    by (intro impI, rule wait_for_packet_type_start, assumption)
  subgoal
    by (intro impI, elim conjE, rule loop_match, assumption+, simp)
  subgoal
    by (intro impI, elim conjE, rule loop_other, assumption+, simp)
  subgoal
    by (intro impI, elim conjE, rule loop_deadline, assumption+)
  subgoal
    by (intro impI, drule wait_for_packet_type_returns_match, simp)
  done

theorem wait_for_packet_type_zero_report_id_witness:
  "wait_for_packet_type script_env (\<lambda>st. None) (Suc 2) BNO_CHANNEL_CONTROL (Some 0) 5
      (BNO080_init other_channel_first) =
     Some (Inr (feature_response,
                (BNO080_init other_channel_first)
                  \<lparr>self_data_buffer := feature_frame,
                   env := other_channel_first\<lparr>clock := [], ready := [], frames := []\<rparr>\<rparr>))
   \<and> Packet_report_id feature_response = Inr 0xFC
   \<and> Packet_channel_number accelerometer_report = 3
   \<and> wait_for_packet_type script_env (\<lambda>st. None) (Suc 0) BNO_CHANNEL_CONTROL (Some 0) 5
      (BNO080_init expired) =
     Some (Inl (RuntimeError ''Timed out waiting for a packet on channel''))"
proof -
  note zero = wait_for_packet_type_zero_report_id
    [where E = script_env and reinit = "\<lambda>st. None" and channel = BNO_CHANNEL_CONTROL
       and timeout = 5 and start_time = 100]
  define s0 where "s0 = (BNO080_init other_channel_first)
      \<lparr>env := other_channel_first\<lparr>clock := [101, 101, 102, 103, 103, 104]\<rparr>\<rparr>"
  define s2 where "s2 = (BNO080_init other_channel_first)
      \<lparr>self_data_buffer := accelerometer_frame,
       env := other_channel_first\<lparr>clock := [103, 103, 104], ready := [True],
                                  frames := [feature_frame]\<rparr>\<rparr>"
  define s4 where "s4 = (BNO080_init other_channel_first)
      \<lparr>self_data_buffer := feature_frame,
       env := other_channel_first\<lparr>clock := [], ready := [], frames := []\<rparr>\<rparr>"
  have start: "wait_for_packet_type script_env (\<lambda>st. None) (Suc 2) BNO_CHANNEL_CONTROL (Some 0) 5
                 (BNO080_init other_channel_first) =
               wait_for_packet_type_loop script_env (\<lambda>st. None) (Suc 2) BNO_CHANNEL_CONTROL
                 (Some 0) 5 100 s0"
    by (rule zero [where n = "Suc 2" and s = "BNO080_init other_channel_first",
          THEN conjunct2, THEN conjunct1, rule_format])
       (simp add: s0_def other_channel_first_def)
  have first: "wait_for_packet_type_loop script_env (\<lambda>st. None) (Suc 2) BNO_CHANNEL_CONTROL
                 (Some 0) 5 100 s0 =
               andthen (handle_packet script_env (\<lambda>st. None) accelerometer_report s2)
                 (\<lambda>st3. wait_for_packet_type_loop script_env (\<lambda>st. None) 2
                           BNO_CHANNEL_CONTROL (Some 0) 5 100 st3)"
    by (rule zero [where fuel = 2 and st = s0 and now = 101
          and ?st1.0 = "s0\<lparr>env := other_channel_first\<lparr>clock := [101, 102, 103, 103, 104]\<rparr>\<rparr>",
          THEN conjunct2, THEN conjunct2, THEN conjunct2, THEN conjunct1, rule_format])
       (simp add: s0_def s2_def other_channel_first_def wait_for_packet_def fuel_numeral
          elapsed_def Packet_init_accelerometer_frame)
  have handled: "handle_packet script_env (\<lambda>st. None) accelerometer_report s2 = Some (Inr s2)"
    by (simp add: handle_packet_sensor_channel)
  have second: "wait_for_packet_type_loop script_env (\<lambda>st. None) (Suc 1) BNO_CHANNEL_CONTROL
                  (Some 0) 5 100 s2 = Some (Inr (feature_response, s4))"
    by (rule zero [where fuel = 1 and st = s2 and now = 103
          and ?st1.0 = "s2\<lparr>env := other_channel_first\<lparr>clock := [103, 104], ready := [True],
                                                       frames := [feature_frame]\<rparr>\<rparr>",
          THEN conjunct2, THEN conjunct2, THEN conjunct1, rule_format])
       (simp add: s2_def s4_def other_channel_first_def wait_for_packet_def fuel_numeral
          elapsed_def Packet_init_feature_frame)
  have run: "wait_for_packet_type script_env (\<lambda>st. None) (Suc 2) BNO_CHANNEL_CONTROL (Some 0) 5
               (BNO080_init other_channel_first) = Some (Inr (feature_response, s4))"
    using start first handled second by (simp add: andthen_def numeral_2_eq_2)
  define e0 where "e0 = (BNO080_init expired)\<lparr>env := expired\<lparr>clock := [106]\<rparr>\<rparr>"
  have late_start: "wait_for_packet_type script_env (\<lambda>st. None) (Suc 0) BNO_CHANNEL_CONTROL
                      (Some 0) 5 (BNO080_init expired) =
                    wait_for_packet_type_loop script_env (\<lambda>st. None) (Suc 0)
                      BNO_CHANNEL_CONTROL (Some 0) 5 100 e0"
    by (rule zero [where n = "Suc 0" and s = "BNO080_init expired",
          THEN conjunct2, THEN conjunct1, rule_format])
       (simp add: e0_def expired_def)
  have late: "wait_for_packet_type_loop script_env (\<lambda>st. None) (Suc 0) BNO_CHANNEL_CONTROL
                (Some 0) 5 100 e0 =
              Some (Inl (RuntimeError ''Timed out waiting for a packet on channel''))"
    by (rule zero [where fuel = 0 and st = e0 and now = 106
          and ?st1.0 = "e0\<lparr>env := expired\<lparr>clock := []\<rparr>\<rparr>",
          THEN conjunct2, THEN conjunct2, THEN conjunct2, THEN conjunct2, THEN conjunct1,
          rule_format])
       (simp add: e0_def expired_def)
  from run late_start late show ?thesis by (simp add: s4_def)
qed

subsection \<open>Matching, dispatching and the deadline\<close>

text \<open>
  C3, as the source has it. The call reads the clock once, at its start, and every test
  of the caller's deadline compares the float difference between the clock and that
  reading with the timeout. The deadline is tested before each poll, not during it: a
  test that finds the timeout used up raises the RuntimeError of the call. Each poll
  reads the clock at its own start and waits under its own timeout,
  \<^verbatim>\<open>_PACKET_READ_TIMEOUT\<close>; an error of the poll, its own timeout included, ends the call.
  A packet on the requested channel (with the requested report id, when that is not zero)
  is returned; a packet of another channel, or with another readable report id, is handed
  to \<^verbatim>\<open>_handle_packet\<close> and the loop goes on under the same start time. Whatever the
  call returns matches the request.
\<close>

theorem wait_for_packet_type_loop_cases:
  "(monotonic E s = (start_time, s0)
      \<longrightarrow> wait_for_packet_type E reinit n channel report_id timeout s =
            wait_for_packet_type_loop E reinit n channel report_id timeout start_time s0)
   \<and> (monotonic E st = (now, st1) \<and> \<not> float_sub E now start_time < timeout
      \<longrightarrow> wait_for_packet_type_loop E reinit (Suc fuel) channel report_id timeout start_time st =
            Some (Inl (RuntimeError ''Timed out waiting for a packet on channel'')))
   \<and> (monotonic E st = (now, st1) \<and> float_sub E now start_time < timeout
        \<and> wait_for_packet E fuel PACKET_READ_TIMEOUT st1 = Some (Inl e)
      \<longrightarrow> wait_for_packet_type_loop E reinit (Suc fuel) channel report_id timeout start_time st =
            Some (Inl e))
   \<and> (monotonic E st = (now, st1) \<and> float_sub E now start_time < timeout
        \<and> wait_for_packet E fuel PACKET_READ_TIMEOUT st1 = Some (Inr (new_packet, st2))
        \<and> Packet_channel_number new_packet = channel
        \<and> (truthy report_id \<longrightarrow>
             (\<exists>r. report_id = Some r \<and> Packet_report_id new_packet = Inr r))
      \<longrightarrow> wait_for_packet_type_loop E reinit (Suc fuel) channel report_id timeout start_time st =
            Some (Inr (new_packet, st2)))
   \<and> (monotonic E st = (now, st1) \<and> float_sub E now start_time < timeout
        \<and> wait_for_packet E fuel PACKET_READ_TIMEOUT st1 = Some (Inr (new_packet, st2))
        \<and> (Packet_channel_number new_packet \<noteq> channel
            \<or> (truthy report_id \<and>
                (\<exists>r. Packet_report_id new_packet = Inr r \<and> report_id \<noteq> Some r)))
      \<longrightarrow> wait_for_packet_type_loop E reinit (Suc fuel) channel report_id timeout start_time st =
            andthen (handle_packet E reinit new_packet st2)
              (\<lambda>st3. wait_for_packet_type_loop E reinit fuel channel report_id timeout
                        start_time st3))
   \<and> (wait_for_packet_type E reinit n channel report_id timeout s = Some (Inr (packet, s'))
      \<longrightarrow> Packet_channel_number packet = channel
          \<and> (truthy report_id \<longrightarrow>
               (\<exists>r. report_id = Some r \<and> Packet_report_id packet = Inr r)))
   \<and> (monotonic E s = (poll_start, s0)
      \<longrightarrow> wait_for_packet E n poll_timeout s =
            wait_for_packet_loop E n poll_start poll_timeout s0)
   \<and> (monotonic E st = (now, st1) \<and> \<not> float_sub E now poll_start < poll_timeout
      \<longrightarrow> wait_for_packet_loop E (Suc fuel) poll_start poll_timeout st =
            Some (Inl (RuntimeError ''Timed out waiting for a packet'')))
   \<and> (monotonic E st = (now, st1) \<and> float_sub E now poll_start < poll_timeout
        \<and> data_ready E st1 = Inr (False, st2)
      \<longrightarrow> wait_for_packet_loop E (Suc fuel) poll_start poll_timeout st =
            wait_for_packet_loop E fuel poll_start poll_timeout st2)
   \<and> (monotonic E st = (now, st1) \<and> float_sub E now poll_start < poll_timeout
        \<and> data_ready E st1 = Inr (True, st2) \<and> read_packet E st2 = Inr (new_packet, st3)
      \<longrightarrow> wait_for_packet_loop E (Suc fuel) poll_start poll_timeout st =
            Some (Inr (new_packet, st3)))"
  apply (intro conjI)
  subgoal
    by (intro impI, rule wait_for_packet_type_start, assumption)
  subgoal
    by (intro impI, elim conjE, rule loop_deadline, assumption+)
  subgoal
    by (intro impI, elim conjE, rule loop_poll_error, assumption+)
  subgoal
    by (intro impI, elim conjE, rule loop_match, assumption+)
  subgoal
    by (intro impI, elim conjE, rule loop_other, assumption+)
  subgoal
    by (intro impI, rule wait_for_packet_type_returns_match, assumption)
  subgoal
    by (intro impI, rule wait_for_packet_start, assumption)
  subgoal
    by (intro impI, elim conjE, rule poll_deadline, assumption+)
  subgoal
    by (intro impI, elim conjE, rule poll_not_ready, assumption+)
  subgoal
    by (intro impI, elim conjE, rule poll_ready, assumption+)
  done

theorem wait_for_packet_type_loop_cases_witness:
  "wait_for_packet_type script_env (\<lambda>st. None) (Suc 0) BNO_CHANNEL_CONTROL
      (Some BNO_CMD_GET_FEATURE_RESPONSE) 5 (BNO080_init expired) =
     Some (Inl (RuntimeError ''Timed out waiting for a packet on channel''))
   \<and> wait_for_packet_type script_env (\<lambda>st. None) (Suc 1) BNO_CHANNEL_CONTROL
      (Some BNO_CMD_GET_FEATURE_RESPONSE) 5 (BNO080_init prompt_arrival) =
     Some (Inr (feature_response,
                (BNO080_init prompt_arrival)
                  \<lparr>self_data_buffer := feature_frame,
                   env := prompt_arrival\<lparr>clock := [], ready := [], frames := []\<rparr>\<rparr>))
   \<and> wait_for_packet_type script_env (\<lambda>st. None) (Suc 2) BNO_CHANNEL_CONTROL
      (Some SHTP_REPORT_PRODUCT_ID_RESPONSE) 5 (BNO080_init two_frames) =
     Some (Inr (id_response,
                (BNO080_init two_frames)
                  \<lparr>self_data_buffer := id_frame,
                   env := two_frames\<lparr>clock := [], ready := [], frames := []\<rparr>\<rparr>))"
proof -
  note cases = wait_for_packet_type_loop_cases
    [where E = script_env and reinit = "\<lambda>st. None" and start_time = 100 and timeout = 5
       and channel = BNO_CHANNEL_CONTROL]
  define e0 where "e0 = (BNO080_init expired)\<lparr>env := expired\<lparr>clock := [106]\<rparr>\<rparr>"
  have a0: "wait_for_packet_type script_env (\<lambda>st. None) (Suc 0) BNO_CHANNEL_CONTROL
              (Some BNO_CMD_GET_FEATURE_RESPONSE) 5 (BNO080_init expired) =
            wait_for_packet_type_loop script_env (\<lambda>st. None) (Suc 0) BNO_CHANNEL_CONTROL
              (Some BNO_CMD_GET_FEATURE_RESPONSE) 5 100 e0"
    by (rule cases [where n = "Suc 0" and s = "BNO080_init expired", THEN conjunct1,
          rule_format])
       (simp add: e0_def expired_def)
  have a1: "wait_for_packet_type_loop script_env (\<lambda>st. None) (Suc 0) BNO_CHANNEL_CONTROL
              (Some BNO_CMD_GET_FEATURE_RESPONSE) 5 100 e0 =
            Some (Inl (RuntimeError ''Timed out waiting for a packet on channel''))"
    by (rule cases [where fuel = 0 and st = e0 and now = 106
          and ?st1.0 = "e0\<lparr>env := expired\<lparr>clock := []\<rparr>\<rparr>",
          THEN conjunct2, THEN conjunct1, rule_format])
       (simp add: e0_def expired_def)
  define p0 where "p0 = (BNO080_init prompt_arrival)
      \<lparr>env := prompt_arrival\<lparr>clock := [101, 101, 102]\<rparr>\<rparr>"
  define p2 where "p2 = (BNO080_init prompt_arrival)
      \<lparr>self_data_buffer := feature_frame,
       env := prompt_arrival\<lparr>clock := [], ready := [], frames := []\<rparr>\<rparr>"
  have b0: "wait_for_packet_type script_env (\<lambda>st. None) (Suc 1) BNO_CHANNEL_CONTROL
              (Some BNO_CMD_GET_FEATURE_RESPONSE) 5 (BNO080_init prompt_arrival) =
            wait_for_packet_type_loop script_env (\<lambda>st. None) (Suc 1) BNO_CHANNEL_CONTROL
              (Some BNO_CMD_GET_FEATURE_RESPONSE) 5 100 p0"
    by (rule cases [where n = "Suc 1" and s = "BNO080_init prompt_arrival", THEN conjunct1,
          rule_format])
       (simp add: p0_def prompt_arrival_def)
  have b1: "wait_for_packet_type_loop script_env (\<lambda>st. None) (Suc 1) BNO_CHANNEL_CONTROL
              (Some BNO_CMD_GET_FEATURE_RESPONSE) 5 100 p0 = Some (Inr (feature_response, p2))"
    by (rule cases [where fuel = 1 and st = p0 and now = 101
          and ?st1.0 = "p0\<lparr>env := prompt_arrival\<lparr>clock := [101, 102]\<rparr>\<rparr>",
          THEN conjunct2, THEN conjunct2, THEN conjunct2, THEN conjunct1, rule_format])
       (simp add: p0_def p2_def prompt_arrival_def wait_for_packet_def fuel_numeral
          elapsed_def Packet_init_feature_frame)
  define t0 where "t0 = (BNO080_init two_frames)
      \<lparr>env := two_frames\<lparr>clock := [101, 101, 102, 103, 103, 104]\<rparr>\<rparr>"
  define t2 where "t2 = (BNO080_init two_frames)
      \<lparr>self_data_buffer := feature_frame,
       env := two_frames\<lparr>clock := [103, 103, 104], ready := [True], frames := [id_frame]\<rparr>\<rparr>"
  define t4 where "t4 = (BNO080_init two_frames)
      \<lparr>self_data_buffer := id_frame,
       env := two_frames\<lparr>clock := [], ready := [], frames := []\<rparr>\<rparr>"
  have c0: "wait_for_packet_type script_env (\<lambda>st. None) (Suc 2) BNO_CHANNEL_CONTROL
              (Some SHTP_REPORT_PRODUCT_ID_RESPONSE) 5 (BNO080_init two_frames) =
            wait_for_packet_type_loop script_env (\<lambda>st. None) (Suc 2) BNO_CHANNEL_CONTROL
              (Some SHTP_REPORT_PRODUCT_ID_RESPONSE) 5 100 t0"
    by (rule cases [where n = "Suc 2" and s = "BNO080_init two_frames", THEN conjunct1,
          rule_format])
       (simp add: t0_def two_frames_def)
  have c1: "wait_for_packet_type_loop script_env (\<lambda>st. None) (Suc 2) BNO_CHANNEL_CONTROL
              (Some SHTP_REPORT_PRODUCT_ID_RESPONSE) 5 100 t0 =
            andthen (handle_packet script_env (\<lambda>st. None) feature_response t2)
              (\<lambda>st3. wait_for_packet_type_loop script_env (\<lambda>st. None) 2 BNO_CHANNEL_CONTROL
                        (Some SHTP_REPORT_PRODUCT_ID_RESPONSE) 5 100 st3)"
    by (rule cases [where fuel = 2 and st = t0 and now = 101
          and ?st1.0 = "t0\<lparr>env := two_frames\<lparr>clock := [101, 102, 103, 103, 104]\<rparr>\<rparr>",
          THEN conjunct2, THEN conjunct2, THEN conjunct2, THEN conjunct2, THEN conjunct1,
          rule_format])
       (simp add: t0_def t2_def two_frames_def wait_for_packet_def fuel_numeral
          elapsed_def Packet_init_feature_frame)
  have c2: "handle_packet script_env (\<lambda>st. None) feature_response t2 = Some (Inr t2)"
    by (simp add: handle_packet_def andthen_def)
  have c3: "wait_for_packet_type_loop script_env (\<lambda>st. None) (Suc 1) BNO_CHANNEL_CONTROL
              (Some SHTP_REPORT_PRODUCT_ID_RESPONSE) 5 100 t2 = Some (Inr (id_response, t4))"
    by (rule cases [where fuel = 1 and st = t2 and now = 103
          and ?st1.0 = "t2\<lparr>env := two_frames\<lparr>clock := [103, 104], ready := [True],
                                              frames := [id_frame]\<rparr>\<rparr>",
          THEN conjunct2, THEN conjunct2, THEN conjunct2, THEN conjunct1, rule_format])
       (simp add: t2_def t4_def two_frames_def wait_for_packet_def fuel_numeral
          elapsed_def Packet_init_id_frame)
  have c: "wait_for_packet_type script_env (\<lambda>st. None) (Suc 2) BNO_CHANNEL_CONTROL
             (Some SHTP_REPORT_PRODUCT_ID_RESPONSE) 5 (BNO080_init two_frames) =
           Some (Inr (id_response, t4))"
    using c0 c1 c2 c3 by (simp add: andthen_def numeral_2_eq_2)
  from a0 a1 b0 b1 c show ?thesis by (simp add: p2_def t4_def)
qed

text \<open>
  The timeout of the caller does not bound the wait. The call starts when the clock
  reads 100, with a timeout of 5 seconds. A feature response that arrives at 114, inside
  a poll that began in time, is returned: the deadline passed at 105 without a match and
  the call does not fail. And when no packet arrives at all, the call ends at 115, when
  the poll's 15 seconds are over, with the poll's error.
\<close>

theorem late_packet_returned_after_deadline:
  "wait_for_packet_type script_env (\<lambda>st. None) 3 BNO_CHANNEL_CONTROL
      (Some BNO_CMD_GET_FEATURE_RESPONSE) 5 (BNO080_init late_arrival) =
     Some (Inr (feature_response,
                (BNO080_init late_arrival)
                  \<lparr>self_data_buffer := feature_frame,
                   env := late_arrival\<lparr>clock := [], ready := [], frames := []\<rparr>\<rparr>))
   \<and> clock late_arrival = [100, 100, 100, 107, 114]
   \<and> \<not> (float_sub script_env 107 100 < 5)
   \<and> wait_for_packet_type script_env (\<lambda>st. None) 6 BNO_CHANNEL_CONTROL
      (Some BNO_CMD_GET_FEATURE_RESPONSE) 5 (BNO080_init silence) =
     Some (Inl (RuntimeError ''Timed out waiting for a packet''))
   \<and> clock silence = [100, 100, 100, 103, 106, 109, 112, 115]"
  by (simp add: wait_for_packet_type_def wait_for_packet_def fuel_numeral elapsed_def
        late_arrival_def silence_def Packet_init_feature_frame)

section \<open>Properties of the sensor id query\<close>

lemma parse_sensor_id_Some:
  "parse_sensor_id st = Inr (Some part) \<Longrightarrow>
     getitem (self_data_buffer st) 4 = Inr SHTP_REPORT_PRODUCT_ID_RESPONSE \<and>
     get_data 4 LE_I st = Inr part"
  by (auto simp: parse_sensor_id_def split: sum.splits if_splits)

lemma parse_sensor_id_zero:
  "18 \<le> length (self_data_buffer st) \<Longrightarrow> get_data 4 LE_I st = Inr 0 \<Longrightarrow>
     \<exists>v. parse_sensor_id st = Inr v \<and> \<not> truthy v"
  by (auto simp: parse_sensor_id_def get_data_def unpack_from_def getitem_def Let_def
        split: sum.splits)

lemma parse_sensor_id_frames:
  "self_data_buffer st = zero_id_frame \<Longrightarrow> parse_sensor_id st = Inr (Some 0)"
  "self_data_buffer st = id_frame \<Longrightarrow> parse_sensor_id st = Inr (Some 10003608)"
  by (simp_all add: parse_sensor_id_def getitem_def get_data_def unpack_from_def
        zero_id_frame_def id_frame_def)

text \<open>
  The loop of \<^verbatim>\<open>_check_id\<close> returns only through its \<^verbatim>\<open>return True\<close>, after a wait
  that returned a packet and a part number that is not zero.
\<close>

lemma check_id_loop_true:
  "check_id_loop E reinit fuel st = Some (Inr (result, st')) \<Longrightarrow>
     result \<and>
     (\<exists>n s packet st1 part.
        wait_for_packet_type E reinit n BNO_CHANNEL_CONTROL
          (Some SHTP_REPORT_PRODUCT_ID_RESPONSE) 5 s = Some (Inr (packet, st1)) \<and>
        parse_sensor_id st1 = Inr (Some part) \<and> part \<noteq> 0 \<and>
        st' = st1\<lparr>self_id_read := True\<rparr>)"
proof (induction fuel arbitrary: st)
  case 0
  then show ?case by simp
next
  case (Suc fuel)
  from Suc.prems obtain packet st1 where
    w: "wait_for_packet_type E reinit fuel BNO_CHANNEL_CONTROL
          (Some SHTP_REPORT_PRODUCT_ID_RESPONSE) 5 st = Some (Inr (packet, st1))"
    by (auto split: option.splits sum.splits)
  from Suc.prems w obtain sensor_id where p: "parse_sensor_id st1 = Inr sensor_id"
    by (auto split: sum.splits)
  show ?case
  proof (cases "truthy sensor_id")
    case True
    then obtain part where part: "sensor_id = Some part" "part \<noteq> 0"
      by (cases sensor_id) simp_all
    from Suc.prems w p True have "result" "st' = st1\<lparr>self_id_read := True\<rparr>"
      by simp_all
    with w p part show ?thesis by blast
  next
    case False
    with Suc.prems w p have "check_id_loop E reinit fuel st1 = Some (Inr (result, st'))"
      by simp
    then show ?thesis by (rule Suc.IH)
  qed
qed

text \<open>
  C10: when \<^verbatim>\<open>_id_read\<close> is not yet set, \<^verbatim>\<open>_check_id\<close> returns (always \<^verbatim>\<open>True\<close>)
  and sets \<^verbatim>\<open>_id_read\<close> only after a wait returned a control channel packet with the
  report id 0xF8 and the receive buffer then holds 0xF8 at index 4 and a 32-bit
  little-endian part number, at payload offset 4, that is not zero. After a product id
  response whose part number is 0 the loop does not return: it waits for the next
  response.
\<close>

theorem check_id_needs_part_number:
  assumes "check_id E reinit fuel st = Some (Inr (result, st'))"
    and "\<not> self_id_read st"
  shows "result \<and> self_id_read st' \<and>
         (\<exists>n s packet st1 part.
            wait_for_packet_type E reinit n BNO_CHANNEL_CONTROL
              (Some SHTP_REPORT_PRODUCT_ID_RESPONSE) 5 s = Some (Inr (packet, st1)) \<and>
            Packet_channel_number packet = BNO_CHANNEL_CONTROL \<and>
            Packet_report_id packet = Inr SHTP_REPORT_PRODUCT_ID_RESPONSE \<and>
            getitem (self_data_buffer st1) 4 = Inr SHTP_REPORT_PRODUCT_ID_RESPONSE \<and>
            get_data 4 LE_I st1 = Inr part \<and> part \<noteq> 0 \<and>
            st' = st1\<lparr>self_id_read := True\<rparr>)
         \<and> (\<forall>n s packet s1.
              wait_for_packet_type E reinit n BNO_CHANNEL_CONTROL
                (Some SHTP_REPORT_PRODUCT_ID_RESPONSE) 5 s = Some (Inr (packet, s1)) \<and>
              18 \<le> length (self_data_buffer s1) \<and>
              getitem (self_data_buffer s1) 4 = Inr SHTP_REPORT_PRODUCT_ID_RESPONSE \<and>
              get_data 4 LE_I s1 = Inr 0
              \<longrightarrow> check_id_loop E reinit (Suc n) s = check_id_loop E reinit n s1)"
proof -
  from assms obtain st0 where
    loop: "check_id_loop E reinit fuel st0 = Some (Inr (result, st'))"
    by (auto simp: check_id_def Let_def split: sum.splits)
  from check_id_loop_true [OF loop] obtain n s packet st1 part where
    r: "result"
    and w: "wait_for_packet_type E reinit n BNO_CHANNEL_CONTROL
              (Some SHTP_REPORT_PRODUCT_ID_RESPONSE) 5 s = Some (Inr (packet, st1))"
    and p: "parse_sensor_id st1 = Inr (Some part)" "part \<noteq> 0"
    and s: "st' = st1\<lparr>self_id_read := True\<rparr>"
    by blast
  from wait_for_packet_type_returns_match [OF w]
  have m: "Packet_channel_number packet = BNO_CHANNEL_CONTROL"
    "Packet_report_id packet = Inr SHTP_REPORT_PRODUCT_ID_RESPONSE"
    by simp_all
  have first: "\<exists>n s packet st1 part.
            wait_for_packet_type E reinit n BNO_CHANNEL_CONTROL
              (Some SHTP_REPORT_PRODUCT_ID_RESPONSE) 5 s = Some (Inr (packet, st1)) \<and>
            Packet_channel_number packet = BNO_CHANNEL_CONTROL \<and>
            Packet_report_id packet = Inr SHTP_REPORT_PRODUCT_ID_RESPONSE \<and>
            getitem (self_data_buffer st1) 4 = Inr SHTP_REPORT_PRODUCT_ID_RESPONSE \<and>
            get_data 4 LE_I st1 = Inr part \<and> part \<noteq> 0 \<and>
            st' = st1\<lparr>self_id_read := True\<rparr>"
    using w m parse_sensor_id_Some [OF p(1)] p(2) s by blast
  have second: "check_id_loop E reinit (Suc n) s = check_id_loop E reinit n s1"
    if "wait_for_packet_type E reinit n BNO_CHANNEL_CONTROL
          (Some SHTP_REPORT_PRODUCT_ID_RESPONSE) 5 s = Some (Inr (packet, s1))"
      and "18 \<le> length (self_data_buffer s1)" and "get_data 4 LE_I s1 = Inr 0"
    for n s packet s1
  proof -
    from parse_sensor_id_zero [OF that(2,3)] obtain v where
      "parse_sensor_id s1 = Inr v" "\<not> truthy v" by blast
    with that(1) show ?thesis by simp
  qed
  from r s first second show ?thesis by simp blast
qed

text \<open>
  The query on the script \<open>id_query\<close>: the response with the part number 0 is passed
  over, the next one ends the query.
\<close>

lemma check_id_id_query:
  "check_id script_env (\<lambda>st. None) 4 (BNO080_init id_query) =
     Some (Inr (True,
                (BNO080_init id_query)
                  \<lparr>self_data_buffer := id_frame,
                   self_id_read := True,
                   env := id_query\<lparr>clock := [], ready := [], frames := [],
                                   sent := [(2, [0xF9, 0])]\<rparr>\<rparr>))"
  by (simp add: check_id_def Let_def id_query_def fuel_numeral elapsed_def wait_for_packet_type_def
        wait_for_packet_def Packet_init_zero_id_frame Packet_init_id_frame
        parse_sensor_id_frames)

theorem check_id_needs_part_number_witness:
  "check_id script_env (\<lambda>st. None) 4 (BNO080_init id_query) =
     Some (Inr (True,
                (BNO080_init id_query)
                  \<lparr>self_data_buffer := id_frame,
                   self_id_read := True,
                   env := id_query\<lparr>clock := [], ready := [], frames := [],
                                   sent := [(2, [0xF9, 0])]\<rparr>\<rparr>))
   \<and> get_data 4 LE_I ((BNO080_init id_query)\<lparr>self_data_buffer := id_frame\<rparr>) = Inr 10003608
   \<and> get_data 4 LE_I ((BNO080_init id_query)\<lparr>self_data_buffer := zero_id_frame\<rparr>) = Inr 0"
proof -
  have nr: "\<not> self_id_read (BNO080_init id_query)"
    by simp
  have "get_data 4 LE_I ((BNO080_init id_query)\<lparr>self_data_buffer := id_frame\<rparr>) = Inr 10003608"
    by (simp add: get_data_def unpack_from_def id_frame_def)
  moreover have
    "get_data 4 LE_I ((BNO080_init id_query)\<lparr>self_data_buffer := zero_id_frame\<rparr>) = Inr 0"
    by (simp add: get_data_def unpack_from_def zero_id_frame_def)
  ultimately show ?thesis
    using check_id_needs_part_number [OF check_id_id_query nr] check_id_id_query by simp
qed

section \<open>Properties of the sequence tracker\<close>

text \<open>
  The dispatch routine leaves the tracker alone, unless the packet is the reset indicator
  of the executable channel: then it re-initializes, which receives further packets.
\<close>

lemma handle_packet_keeps_sequence_number:
  assumes "handle_packet E reinit packet st = Some (Inr st')"
    and "\<not> (Packet_channel_number packet = BNO_CHANNEL_EXE \<and> getitem (data packet) 0 = Inr 1)"
  shows "self_sequence_number st' = self_sequence_number st"
proof -
  consider (sensor) "Packet_channel_number packet = 3"
    | (command) "Packet_channel_number packet = 0"
    | (exe) "Packet_channel_number packet = 1"
    | (control) "Packet_channel_number packet = 2"
    | (other) "Packet_channel_number packet \<notin> {0, 1, 2, 3}"
    by auto
  then show ?thesis
  proof cases
    case sensor
    with assms(1) show ?thesis
      by (auto simp: handle_packet_def andthen_def split: sum.splits if_splits)
  next
    case command
    with assms(1) show ?thesis
      by (auto simp: handle_packet_def andthen_def split: if_splits)
  next
    case exe
    with assms show ?thesis
      by (auto simp: handle_packet_def andthen_def split: sum.splits if_splits)
  next
    case control
    with assms(1) show ?thesis
      by (auto simp: handle_packet_def andthen_def split: sum.splits if_splits)
  next
    case other
    with assms(1) show ?thesis
      by (auto simp: handle_packet_def andthen_def)
  qed
qed

lemma receive_packet_sets_entry:
  assumes "receive_packet packet st = Inr st1"
    and "0 \<le> Packet_channel_number packet"
  shows "self_sequence_number st1 =
           (self_sequence_number st)[nat (Packet_channel_number packet) :=
                                       sequence_number (header packet)]
         \<and> nat (Packet_channel_number packet) < length (self_sequence_number st)"
  using assms
  by (auto simp: receive_packet_def update_sequence_number_def Let_def split: if_splits)

lemma find_append_cases:
  "find P (xs @ ys) = (case find P xs of None \<Rightarrow> find P ys | Some x \<Rightarrow> Some x)"
  by (induction xs) simp_all

text \<open>
  C7: after the packets of a list have been received and dispatched, the tracker's entry
  of each channel \<open>c\<close> from 0 to 5 is the sequence number of the last packet of the list
  on that channel, whatever the numbers before it were, and the entry of a channel with
  no packet is as it was.
\<close>

theorem sequence_tracker_last_seen:
  assumes "process_packets E reinit ps st = Some (Inr st')"
    and "\<forall>p\<in>set ps. 0 \<le> Packet_channel_number p \<and>
           \<not> (Packet_channel_number p = BNO_CHANNEL_EXE \<and> getitem (data p) 0 = Inr 1)"
    and "length (self_sequence_number st) = 6"
    and "c < 6"
  shows "self_sequence_number st' ! c =
           (case find (\<lambda>p. Packet_channel_number p = int c) (rev ps) of
              None \<Rightarrow> self_sequence_number st ! c
            | Some p \<Rightarrow> sequence_number (header p))"
  using assms
proof (induction ps arbitrary: st)
  case Nil
  then show ?case by simp
next
  case (Cons p ps)
  from Cons.prems(1) obtain st1 st2 where
    r: "receive_packet p st = Inr st1"
    and h: "handle_packet E reinit p st1 = Some (Inr st2)"
    and rest: "process_packets E reinit ps st2 = Some (Inr st')"
    by (auto split: sum.splits option.splits)
  from Cons.prems(2) have p: "0 \<le> Packet_channel_number p"
    "\<not> (Packet_channel_number p = BNO_CHANNEL_EXE \<and> getitem (data p) 0 = Inr 1)"
    by simp_all
  from receive_packet_sets_entry [OF r p(1)] Cons.prems(3)
  have s1: "self_sequence_number st1 =
              (self_sequence_number st)[nat (Packet_channel_number p) :=
                                          sequence_number (header p)]"
    and lt: "nat (Packet_channel_number p) < 6"
    by simp_all
  from handle_packet_keeps_sequence_number [OF h p(2)] s1
  have s2: "self_sequence_number st2 =
              (self_sequence_number st)[nat (Packet_channel_number p) :=
                                          sequence_number (header p)]"
    by simp
  then have len: "length (self_sequence_number st2) = 6"
    using Cons.prems(3) by simp
  from Cons.prems(2) have all: "\<forall>p\<in>set ps. 0 \<le> Packet_channel_number p \<and>
           \<not> (Packet_channel_number p = BNO_CHANNEL_EXE \<and> getitem (data p) 0 = Inr 1)"
    by simp
  note IH = Cons.IH [OF rest all len Cons.prems(4)]
  have here: "self_sequence_number st2 ! c =
                (if Packet_channel_number p = int c then sequence_number (header p)
                 else self_sequence_number st ! c)"
    using s2 p(1) lt Cons.prems(3,4) by (auto simp: nth_list_update)
  show ?case
    using IH here by (simp add: find_append_cases split: option.splits)
qed

text \<open>
  A gyroscope report with the sequence number 9, a command response, then an
  accelerometer report with the sequence number 7, both reports on channel 3: the entry
  of channel 3 ends as 7.
\<close>

lemma out_of_order_run:
  "process_packets script_env (\<lambda>st. None)
      [gyroscope_report, unsolicited_init, accelerometer_report] (BNO080_init idle) =
     Some (Inr ((BNO080_init idle)
                  \<lparr>self_sequence_number := [0, 0, 1, 7, 0, 0],
                   self_wait_for_initialize := False,
                   self_init_complete := True\<rparr>))"
  by (simp add: receive_packet_def update_sequence_number_def handle_packet_def andthen_def
        Packet_channel_number_def Packet_report_id_def getitem_def
        gyroscope_report_def unsolicited_init_def accelerometer_report_def)

theorem sequence_tracker_last_seen_witness:
  "process_packets script_env (\<lambda>st. None)
      [gyroscope_report, unsolicited_init, accelerometer_report] (BNO080_init idle) =
     Some (Inr ((BNO080_init idle)
                  \<lparr>self_sequence_number := [0, 0, 1, 7, 0, 0],
                   self_wait_for_initialize := False,
                   self_init_complete := True\<rparr>))
   \<and> sequence_number (header gyroscope_report) = 9
   \<and> sequence_number (header accelerometer_report) = 7
   \<and> self_sequence_number
        ((BNO080_init idle)\<lparr>self_sequence_number := [0, 0, 1, 7, 0, 0],
                            self_wait_for_initialize := False,
                            self_init_complete := True\<rparr>) ! 3 = 7"
proof -
  have all: "\<forall>p\<in>set [gyroscope_report, unsolicited_init, accelerometer_report].
               0 \<le> Packet_channel_number p \<and>
               \<not> (Packet_channel_number p = BNO_CHANNEL_EXE \<and> getitem (data p) 0 = Inr 1)"
    by (simp add: Packet_channel_number_def gyroscope_report_def unsolicited_init_def
          accelerometer_report_def)
  have len: "length (self_sequence_number (BNO080_init idle)) = 6" by simp
  have c: "(3::nat) < 6" by simp
  show ?thesis
    using sequence_tracker_last_seen [OF out_of_order_run all len c] out_of_order_run
    by (simp add: Packet_channel_number_def gyroscope_report_def unsolicited_init_def
          accelerometer_report_def)
qed

end
